theory Spec2Isabelle
  imports Main "HOL-Library.Sublist" "HOL-Library.AList"
begin

section \<open>JavaScript values, as the two servers use them\<close>

text \<open>
  Both servers are JavaScript programs that handle JSON: the arguments of a tool call,
  the parsed bodies of upstream responses. A value is what \<^verbatim>\<open>JSON.parse\<close> can produce,
  plus \<^verbatim>\<open>undefined\<close> (the result of reading a property that is not there).

  Modelling boundary. A number is an integer (issue numbers, limits, counts, HTTP status
  codes); fractional JSON numbers are outside the model. A string is a list of 8-bit
  characters, each standing for one UTF-16 code unit below 256. An object is an
  association list read with \<open>map_of\<close>; the property names the servers read are never
  those of \<^verbatim>\<open>Object.prototype\<close>, so an absent key reads as \<^verbatim>\<open>undefined\<close>.
  Writes to stderr (\<^verbatim>\<open>log\<close>, \<^verbatim>\<open>logError\<close>) have no effect on any result and are left out.
\<close>

datatype jsval =
    JUndefined
  | JNull
  | JBool bool
  | JNum int
  | JStr string
  | JArr "jsval list"
  | JObj "(string \<times> jsval) list"

text \<open>
  A thrown value. Every value thrown in these programs is an \<^verbatim>\<open>Error\<close> object: the
  programs' own \<^verbatim>\<open>new Error(...)\<close>, the runtime's \<^verbatim>\<open>TypeError\<close>, the \<^verbatim>\<open>SyntaxError\<close> of
  a response body that is not JSON, and the client library's \<^verbatim>\<open>RequestError\<close>, which
  carries the HTTP status beside its message. The wording of a \<^verbatim>\<open>TypeError\<close> is the
  engine's (V8's is used here); none of the claims depends on it.
\<close>

datatype js_error =
    Error string
  | TypeError string
  | SyntaxError string
  | RequestError nat string

fun message :: "js_error \<Rightarrow> string" where
  "message (Error m) = m"
| "message (TypeError m) = m"
| "message (SyntaxError m) = m"
| "message (RequestError status m) = m"

text \<open>Sequencing of a computation that may throw: the first exception wins.\<close>

fun bindE :: "js_error + 'a \<Rightarrow> ('a \<Rightarrow> js_error + 'b) \<Rightarrow> js_error + 'b" where
  "bindE (Inl e) f = Inl e"
| "bindE (Inr x) f = f x"

fun sequenceE :: "(js_error + 'a) list \<Rightarrow> js_error + 'a list" where
  "sequenceE [] = Inr []"
| "sequenceE (m # ms) = bindE m (\<lambda>y. bindE (sequenceE ms) (\<lambda>ys. Inr (y # ys)))"

text \<open>\<^verbatim>\<open>xs.map(f)\<close> with a callback that may throw: left to right, stopping at the first throw.\<close>

definition mapE :: "('a \<Rightarrow> js_error + 'b) \<Rightarrow> 'a list \<Rightarrow> js_error + 'b list" where
  "mapE f xs = sequenceE (map f xs)"

definition sq :: string where "sq = [CHR 0x27]"
definition dq :: string where "dq = [CHR 0x22]"
definition nl :: string where "nl = [CHR 0x0A]"

subsection \<open>Numbers and their decimal text\<close>

definition digit_char :: "nat \<Rightarrow> char" where
  "digit_char d = ''0123456789'' ! d"

fun show_nat :: "nat \<Rightarrow> string" where
  "show_nat n =
     (if n < 10 then [digit_char n]
      else show_nat (n div 10) @ [digit_char (n mod 10)])"

declare show_nat.simps [simp del]

definition show_int :: "int \<Rightarrow> string" where
  "show_int i = (if i < 0 then ''-'' @ show_nat (nat (- i)) else show_nat (nat i))"

text \<open>The numbers arithmetic can produce: an integer, an infinity or \<^verbatim>\<open>NaN\<close>.\<close>

datatype jsnum = NaN | NegInf | PosInf | Fin int

subsection \<open>Truthiness, nullish values, property reads\<close>

fun truthy :: "jsval \<Rightarrow> bool" where
  "truthy JUndefined = False"
| "truthy JNull = False"
| "truthy (JBool b) = b"
| "truthy (JNum n) = (n \<noteq> 0)"
| "truthy (JStr s) = (s \<noteq> [])"
| "truthy (JArr xs) = True"
| "truthy (JObj kvs) = True"

fun nullish :: "jsval \<Rightarrow> bool" where
  "nullish JUndefined = True"
| "nullish JNull = True"
| "nullish v = False"

text \<open>\<^verbatim>\<open>a || b\<close> on values.\<close>

definition js_or :: "jsval \<Rightarrow> jsval \<Rightarrow> jsval" where
  "js_or a b = (if truthy a then a else b)"

text \<open>\<^verbatim>\<open>v.k\<close>: reading a property of \<^verbatim>\<open>undefined\<close> or \<^verbatim>\<open>null\<close> throws.\<close>

fun get_prop :: "jsval \<Rightarrow> string \<Rightarrow> js_error + jsval" where
  "get_prop JUndefined k =
     Inl (TypeError (''Cannot read properties of undefined (reading '' @ sq @ k @ sq @ '')''))"
| "get_prop JNull k =
     Inl (TypeError (''Cannot read properties of null (reading '' @ sq @ k @ sq @ '')''))"
| "get_prop (JObj kvs) k = Inr (case map_of kvs k of Some v \<Rightarrow> v | None \<Rightarrow> JUndefined)"
| "get_prop (JArr xs) k = Inr (if k = ''length'' then JNum (int (length xs)) else JUndefined)"
| "get_prop (JStr s) k = Inr (if k = ''length'' then JNum (int (length s)) else JUndefined)"
| "get_prop (JBool b) k = Inr JUndefined"
| "get_prop (JNum n) k = Inr JUndefined"

text \<open>\<^verbatim>\<open>v?.k\<close>: a nullish \<^verbatim>\<open>v\<close> gives \<^verbatim>\<open>undefined\<close>.\<close>

definition opt_prop :: "jsval \<Rightarrow> string \<Rightarrow> jsval" where
  "opt_prop v k = (case get_prop v k of Inl e \<Rightarrow> JUndefined | Inr x \<Rightarrow> x)"

text \<open>\<^verbatim>\<open>v?.[0]\<close>.\<close>

fun opt_first :: "jsval \<Rightarrow> jsval" where
  "opt_first (JArr xs) = (case xs of [] \<Rightarrow> JUndefined | x # _ \<Rightarrow> x)"
| "opt_first (JStr s) = (case s of [] \<Rightarrow> JUndefined | c # _ \<Rightarrow> JStr [c])"
| "opt_first (JObj kvs) = (case map_of kvs ''0'' of Some v \<Rightarrow> v | None \<Rightarrow> JUndefined)"
| "opt_first v = JUndefined"

text \<open>
  \<^verbatim>\<open>const { k } = v\<close>: destructuring \<^verbatim>\<open>undefined\<close> or \<^verbatim>\<open>null\<close> throws; \<open>src\<close> is the
  name of the destructured variable, which the engine puts into the message.
\<close>

fun destructure :: "string \<Rightarrow> jsval \<Rightarrow> string \<Rightarrow> js_error + jsval" where
  "destructure src JUndefined k =
     Inl (TypeError (''Cannot destructure property '' @ sq @ k @ sq @ '' of '' @ sq @ src @ sq
                     @ '' as it is undefined.''))"
| "destructure src JNull k =
     Inl (TypeError (''Cannot destructure property '' @ sq @ k @ sq @ '' of '' @ sq @ src @ sq
                     @ '' as it is null.''))"
| "destructure src v k = get_prop v k"

text \<open>A destructuring default \<^verbatim>\<open>{ k = d }\<close> applies to \<^verbatim>\<open>undefined\<close> only.\<close>

definition default_to :: "jsval \<Rightarrow> jsval \<Rightarrow> jsval" where
  "default_to d v = (if v = JUndefined then d else v)"

subsection \<open>Conversion to string and to number\<close>

fun join :: "string \<Rightarrow> string list \<Rightarrow> string" where
  "join sep [] = []"
| "join sep [s] = s"
| "join sep (s # t # ss) = s @ sep @ join sep (t # ss)"

text \<open>
  \<^verbatim>\<open>ToString\<close>, as a template literal applies it. An array is joined with commas, its
  nullish elements as the empty string. An object prints as \<^verbatim>\<open>[object Object]\<close> through
  the inherited \<^verbatim>\<open>toString\<close>; an own property of that name (never callable, in JSON)
  hides it, and the conversion throws.
\<close>

fun to_string :: "jsval \<Rightarrow> js_error + string" where
  "to_string JUndefined = Inr ''undefined''"
| "to_string JNull = Inr ''null''"
| "to_string (JBool b) = Inr (if b then ''true'' else ''false'')"
| "to_string (JNum n) = Inr (show_int n)"
| "to_string (JStr s) = Inr s"
| "to_string (JArr xs) =
     bindE (sequenceE (map (\<lambda>x. if nullish x then Inr [] else to_string x) xs))
       (\<lambda>ss. Inr (join '','' ss))"
| "to_string (JObj kvs) =
     (if ''toString'' \<in> fst ` set kvs
      then Inl (TypeError ''Cannot convert object to primitive value'')
      else Inr ''[object Object]'')"


text \<open>
  \<^verbatim>\<open>StringToNumber\<close> on the integers: surrounding white space is dropped, the empty
  string is 0, an optionally signed run of decimal digits is that integer, and
  \<^verbatim>\<open>Infinity\<close> is read with its sign. Literals of numbers outside the model (with a
  fraction, an exponent or a radix prefix) are not recognised and read as \<^verbatim>\<open>NaN\<close>.
\<close>

definition is_space :: "char \<Rightarrow> bool" where
  "is_space c = ((of_char c :: nat) \<in> {9, 10, 11, 12, 13, 32, 160})"

text \<open>\<^verbatim>\<open>s.trim()\<close>.\<close>

definition trim :: "string \<Rightarrow> string" where
  "trim s = rev (dropWhile is_space (rev (dropWhile is_space s)))"

definition is_digit :: "char \<Rightarrow> bool" where
  "is_digit c = (48 \<le> (of_char c :: nat) \<and> (of_char c :: nat) \<le> 57)"

definition digits_value :: "string \<Rightarrow> int" where
  "digits_value ds = foldl (\<lambda>acc c. 10 * acc + (int (of_char c) - 48)) 0 ds"

definition string_to_number :: "string \<Rightarrow> jsnum" where
  "string_to_number s =
     (let t = trim s in
      if t = [] then Fin 0
      else if t = ''Infinity'' \<or> t = ''+Infinity'' then PosInf
      else if t = ''-Infinity'' then NegInf
      else let neg = (hd t = CHR ''-'');
               ds = (if hd t = CHR ''-'' \<or> hd t = CHR ''+'' then tl t else t)
           in if ds \<noteq> [] \<and> list_all is_digit ds
              then Fin (if neg then - digits_value ds else digits_value ds)
              else NaN)"

text \<open>\<^verbatim>\<open>ToNumber\<close>; an array or object goes through its string.\<close>

fun to_number :: "jsval \<Rightarrow> js_error + jsnum" where
  "to_number JUndefined = Inr NaN"
| "to_number JNull = Inr (Fin 0)"
| "to_number (JBool b) = Inr (Fin (if b then 1 else 0))"
| "to_number (JNum n) = Inr (Fin n)"
| "to_number (JStr s) = Inr (string_to_number s)"
| "to_number v = bindE (to_string v) (\<lambda>s. Inr (string_to_number s))"

text \<open>\<^verbatim>\<open>Math.min(a, b)\<close> on numbers.\<close>

fun math_min :: "jsnum \<Rightarrow> jsnum \<Rightarrow> jsnum" where
  "math_min NaN b = NaN"
| "math_min a NaN = NaN"
| "math_min NegInf b = NegInf"
| "math_min a NegInf = NegInf"
| "math_min PosInf b = b"
| "math_min a PosInf = a"
| "math_min (Fin a) (Fin b) = Fin (min a b)"

text \<open>\<^verbatim>\<open>n > 0\<close> on a number.\<close>

fun positive :: "jsnum \<Rightarrow> bool" where
  "positive (Fin n) = (0 < n)"
| "positive PosInf = True"
| "positive n = False"

text \<open>\<^verbatim>\<open>x && x.length > 0\<close>, the test both optional lists of an issue go through.\<close>

definition truthy_with_length :: "jsval \<Rightarrow> js_error + bool" where
  "truthy_with_length x =
     (if \<not> truthy x then Inr False
      else bindE (get_prop x ''length'') (\<lambda>l. bindE (to_number l) (\<lambda>n. Inr (positive n))))"

text \<open>
  \<^verbatim>\<open>xs.slice(0, end)\<close> on a sequence: \<^verbatim>\<open>end\<close> is truncated to an integer (\<^verbatim>\<open>NaN\<close> is 0), a
  negative one counts from the end.
\<close>

fun slice_end :: "nat \<Rightarrow> jsnum \<Rightarrow> nat" where
  "slice_end len NaN = 0"
| "slice_end len NegInf = 0"
| "slice_end len PosInf = len"
| "slice_end len (Fin n) = (if n < 0 then nat (max (int len + n) 0) else min (nat n) len)"

definition slice0 :: "'a list \<Rightarrow> jsnum \<Rightarrow> 'a list" where
  "slice0 xs e = take (slice_end (length xs) e) xs"

text \<open>
  A template literal: the parts are evaluated and converted left to right; \<open>lit\<close> is
  literal text, \<open>sub\<close> a substitution \<^verbatim>\<open>${e}\<close> whose expression \<open>e\<close> may itself throw.
\<close>

definition lit :: "string \<Rightarrow> js_error + string" where
  "lit s = Inr s"

definition sub :: "js_error + jsval \<Rightarrow> js_error + string" where
  "sub e = bindE e to_string"

definition template :: "(js_error + string) list \<Rightarrow> js_error + string" where
  "template parts = bindE (sequenceE parts) (\<lambda>ss. Inr (concat ss))"

text \<open>
  \<^verbatim>\<open>xs.map(f)\<close> on a value: only an array has the method; \<open>expr\<close> is the source text of
  the receiver, which the engine puts into the message.
\<close>

fun call_map :: "string \<Rightarrow> jsval \<Rightarrow> (jsval \<Rightarrow> js_error + 'a) \<Rightarrow> js_error + 'a list" where
  "call_map expr (JArr xs) f = mapE f xs"
| "call_map expr JUndefined f =
     Inl (TypeError (''Cannot read properties of undefined (reading '' @ sq @ ''map'' @ sq @ '')''))"
| "call_map expr JNull f =
     Inl (TypeError (''Cannot read properties of null (reading '' @ sq @ ''map'' @ sq @ '')''))"
| "call_map expr v f = Inl (TypeError (expr @ ''.map is not a function''))"

subsection \<open>Strings and the methods of optional values\<close>

text \<open>\<^verbatim>\<open>s.toLowerCase()\<close> on code units below 256: A to Z, and the capital letters of Latin-1.\<close>

definition to_lower_char :: "char \<Rightarrow> char" where
  "to_lower_char c =
     (let n = (of_char c :: nat)
      in if (65 \<le> n \<and> n \<le> 90) \<or> (192 \<le> n \<and> n \<le> 222 \<and> n \<noteq> 215) then char_of (n + 32) else c)"

definition toLowerCase :: "string \<Rightarrow> string" where
  "toLowerCase s = map to_lower_char s"

text \<open>\<^verbatim>\<open>s.includes(t)\<close>: \<open>t\<close> occurs in \<open>s\<close> as a contiguous run.\<close>

fun str_includes :: "string \<Rightarrow> string \<Rightarrow> bool" where
  "str_includes [] t = (t = [])"
| "str_includes (c # cs) t = (prefix t (c # cs) \<or> str_includes cs t)"

text \<open>\<^verbatim>\<open>v.toLowerCase()\<close> on a value that is not nullish: only a string has the method.\<close>

fun call_toLowerCase :: "string \<Rightarrow> jsval \<Rightarrow> js_error + string" where
  "call_toLowerCase expr (JStr s) = Inr (toLowerCase s)"
| "call_toLowerCase expr v = Inl (TypeError (expr @ ''.toLowerCase is not a function''))"

text \<open>\<^verbatim>\<open>v?.toLowerCase().includes(term)\<close>: \<^verbatim>\<open>undefined\<close> for a nullish \<open>v\<close>.\<close>

definition opt_lower_includes :: "string \<Rightarrow> jsval \<Rightarrow> string \<Rightarrow> js_error + jsval" where
  "opt_lower_includes expr v term =
     (if nullish v then Inr JUndefined
      else bindE (call_toLowerCase (expr @ ''?'') v) (\<lambda>s. Inr (JBool (str_includes s term))))"

text \<open>\<^verbatim>\<open>a || b\<close> where evaluating either side may throw; \<open>b\<close> is evaluated only if needed.\<close>

definition orE :: "js_error + jsval \<Rightarrow> js_error + jsval \<Rightarrow> js_error + jsval" where
  "orE a b = bindE a (\<lambda>x. if truthy x then Inr x else b)"

text \<open>\<^verbatim>\<open>xs.filter(f)\<close> and \<^verbatim>\<open>xs.some(f)\<close> on a list, the callback's value read as a boolean.\<close>

fun filterE :: "('a \<Rightarrow> js_error + jsval) \<Rightarrow> 'a list \<Rightarrow> js_error + 'a list" where
  "filterE f [] = Inr []"
| "filterE f (x # xs) =
     bindE (f x) (\<lambda>keep. bindE (filterE f xs) (\<lambda>ys. Inr (if truthy keep then x # ys else ys)))"

fun someE :: "('a \<Rightarrow> js_error + jsval) \<Rightarrow> 'a list \<Rightarrow> js_error + bool" where
  "someE f [] = Inr False"
| "someE f (x # xs) = bindE (f x) (\<lambda>hit. if truthy hit then Inr True else someE f xs)"

text \<open>\<^verbatim>\<open>v?.filter(f)\<close>, \<^verbatim>\<open>v?.some(f)\<close> and \<^verbatim>\<open>v?.slice(0, end)\<close> on a value.\<close>

fun opt_filter :: "string \<Rightarrow> jsval \<Rightarrow> (jsval \<Rightarrow> js_error + jsval) \<Rightarrow> js_error + jsval" where
  "opt_filter expr (JArr xs) f = bindE (filterE f xs) (\<lambda>ys. Inr (JArr ys))"
| "opt_filter expr JUndefined f = Inr JUndefined"
| "opt_filter expr JNull f = Inr JUndefined"
| "opt_filter expr v f = Inl (TypeError (expr @ ''?.filter is not a function''))"

fun opt_some :: "string \<Rightarrow> jsval \<Rightarrow> (jsval \<Rightarrow> js_error + jsval) \<Rightarrow> js_error + jsval" where
  "opt_some expr (JArr xs) f = bindE (someE f xs) (\<lambda>b. Inr (JBool b))"
| "opt_some expr JUndefined f = Inr JUndefined"
| "opt_some expr JNull f = Inr JUndefined"
| "opt_some expr v f = Inl (TypeError (expr @ ''?.some is not a function''))"

fun opt_slice0 :: "string \<Rightarrow> jsval \<Rightarrow> jsval \<Rightarrow> js_error + jsval" where
  "opt_slice0 expr (JArr xs) e = bindE (to_number e) (\<lambda>n. Inr (JArr (slice0 xs n)))"
| "opt_slice0 expr (JStr s) e = bindE (to_number e) (\<lambda>n. Inr (JStr (slice0 s n)))"
| "opt_slice0 expr JUndefined e = Inr JUndefined"
| "opt_slice0 expr JNull e = Inr JUndefined"
| "opt_slice0 expr v e = Inl (TypeError (expr @ ''?.slice is not a function''))"

text \<open>
  The own enumerable properties an object spread \<^verbatim>\<open>{...v}\<close> copies: those of an object,
  the indexed elements of an array or string, none of any other value.
\<close>

fun own_props :: "jsval \<Rightarrow> (string \<times> jsval) list" where
  "own_props (JObj kvs) = kvs"
| "own_props (JArr xs) = map (\<lambda>i. (show_nat i, xs ! i)) [0 ..< length xs]"
| "own_props (JStr s) = map (\<lambda>i. (show_nat i, JStr [s ! i])) [0 ..< length s]"
| "own_props v = []"


section \<open>The result of a tool call\<close>

text \<open>A content block \<^verbatim>\<open>{ type, text }\<close>.\<close>

record content_block =
  block_type :: string
  block_text :: string

record invocation_result =
  content :: "content_block list"
  isError :: "bool option"

text \<open>A handler's success: one text block, \<^verbatim>\<open>isError\<close> not set.\<close>

definition text_result :: "string \<Rightarrow> invocation_result" where
  "text_result t = \<lparr>content = [\<lparr>block_type = ''text'', block_text = t\<rparr>], isError = None\<rparr>"

text \<open>The \<^verbatim>\<open>catch\<close> block of both dispatchers.\<close>

definition error_result :: "js_error \<Rightarrow> invocation_result" where
  "error_result error =
     \<lparr>content = [\<lparr>block_type = ''text'', block_text = ''Error: '' @ message error\<rparr>], isError = Some True\<rparr>"


record tool_descriptor =
  name :: string
  description :: string
  inputSchema :: jsval


datatype response = ToolList "tool_descriptor list" | ToolResult invocation_result

text \<open>
  What the start of a process does to the outside: it ends the process with a status,
  binds the HTTP port of the health check, or connects the server to the stdio transport.
\<close>

datatype event = ProcessExit nat | AppListen jsval | ServerConnect

text \<open>\<^verbatim>\<open>!v\<close> on an environment variable: unset and empty are both falsy.\<close>

fun env_missing :: "string option \<Rightarrow> bool" where
  "env_missing None = True"
| "env_missing (Some v) = (v = [])"

text \<open>\<^verbatim>\<open>process.env.PORT || d\<close>.\<close>

definition port_or :: "string option \<Rightarrow> int \<Rightarrow> jsval" where
  "port_or p d = (if env_missing p then JNum d else (case p of Some v \<Rightarrow> JStr v | None \<Rightarrow> JNum d))"

text \<open>\<^verbatim>\<open>s.split(c)\<close> for a one-character separator.\<close>

fun split_on :: "char \<Rightarrow> string \<Rightarrow> string list" where
  "split_on c [] = [[]]"
| "split_on c (x # xs) =
     (if x = c then [] # split_on c xs
      else (case split_on c xs of p # ps \<Rightarrow> (x # p) # ps | [] \<Rightarrow> [[x]]))"

section \<open>The GitHub server (servers/github-mcp/src/index.js)\<close>

text \<open>
  The calls the server makes on the Octokit client, each with the fields of the object
  it passes: \<^verbatim>\<open>repos.get({owner, repo})\<close>,
  \<^verbatim>\<open>issues.create({owner, repo, title, body, labels?, assignees?})\<close>,
  \<^verbatim>\<open>issues.list({owner, repo, state, per_page, labels?})\<close> and
  \<^verbatim>\<open>issues.get({owner, repo, issue_number})\<close>. An optional field is \<open>None\<close> when the
  server does not set it.

  The client is not part of the repository: it is a parameter, a function from the call
  to its outcome. \<open>Inl e\<close> is a rejected promise (Octokit rejects with a
  \<^verbatim>\<open>RequestError\<close> when the status is not 2xx); \<open>Inr d\<close> is a response whose \<^verbatim>\<open>data\<close> is
  \<open>d\<close>, which is all the server reads of a response.
\<close>

datatype octokit_call =
    ReposGet string string
  | IssuesCreate string string jsval jsval "jsval option" "jsval option"
  | IssuesList string string jsval jsnum "jsval option"
  | IssuesGet string string jsval

type_synonym octokit = "octokit_call \<Rightarrow> js_error + jsval"

definition github_list_tools :: "tool_descriptor list" where
  "github_list_tools =
     [\<lparr>name = ''create_github_issue'',
       description = ''Create a new GitHub issue in the configured repository'',
       inputSchema = JObj
         [(''type'', JStr ''object''),
          (''properties'', JObj
            [(''title'', JObj
               [(''type'', JStr ''string''),
                (''description'', JStr ''The title of the issue'')]),
             (''body'', JObj
               [(''type'', JStr ''string''),
                (''description'', JStr ''The body/description of the issue'')]),
             (''labels'', JObj
               [(''type'', JStr ''array''),
                (''items'', JObj [(''type'', JStr ''string'')]),
                (''description'', JStr ''Optional array of label names to apply'')]),
             (''assignees'', JObj
               [(''type'', JStr ''array''),
                (''items'', JObj [(''type'', JStr ''string'')]),
                (''description'', JStr ''Optional array of usernames to assign'')])]),
          (''required'', JArr [JStr ''title''])]\<rparr>,
      \<lparr>name = ''list_github_issues'',
       description = ''List issues from the GitHub repository'',
       inputSchema = JObj
         [(''type'', JStr ''object''),
          (''properties'', JObj
            [(''state'', JObj
               [(''type'', JStr ''string''),
                (''enum'', JArr [JStr ''open'', JStr ''closed'', JStr ''all'']),
                (''description'', JStr ''Filter issues by state''),
                (''default'', JStr ''open'')]),
             (''labels'', JObj
               [(''type'', JStr ''string''),
                (''description'', JStr ''Comma-separated list of label names to filter by'')]),
             (''limit'', JObj
               [(''type'', JStr ''number''),
                (''description'', JStr ''Maximum number of issues to return''),
                (''default'', JNum 10),
                (''maximum'', JNum 100)])])]\<rparr>,
      \<lparr>name = ''get_github_issue'',
       description = ''Get details of a specific GitHub issue'',
       inputSchema = JObj
         [(''type'', JStr ''object''),
          (''properties'', JObj
            [(''issue_number'', JObj
               [(''type'', JStr ''number''),
                (''description'', JStr ''The issue number'')])]),
          (''required'', JArr [JStr ''issue_number''])]\<rparr>]"

text \<open>The three \<^verbatim>\<open>case\<close> blocks of the dispatcher, each named after its label.\<close>

definition create_github_issue ::
  "string \<Rightarrow> string \<Rightarrow> octokit \<Rightarrow> jsval \<Rightarrow> js_error + invocation_result" where
  "create_github_issue owner repo octokit args =
     bindE (destructure ''args'' args ''title'') (\<lambda>title.
     bindE (destructure ''args'' args ''body'') (\<lambda>body.
     bindE (destructure ''args'' args ''labels'') (\<lambda>labels.
     bindE (destructure ''args'' args ''assignees'') (\<lambda>assignees.
     bindE (truthy_with_length labels) (\<lambda>with_labels.
     bindE (truthy_with_length assignees) (\<lambda>with_assignees.
     bindE (octokit (IssuesCreate owner repo title (js_or body (JStr []))
                       (if with_labels then Some labels else None)
                       (if with_assignees then Some assignees else None))) (\<lambda>issue.
     bindE (template
              [lit ''Successfully created GitHub issue #'', sub (get_prop issue ''number''),
               lit ('': '' @ dq), sub (get_prop issue ''title''),
               lit (dq @ nl @ ''URL: ''), sub (get_prop issue ''html_url''),
               lit (nl @ ''State: ''), sub (get_prop issue ''state'')]) (\<lambda>t.
     Inr (text_result t)))))))))"

definition list_github_issues ::
  "string \<Rightarrow> string \<Rightarrow> octokit \<Rightarrow> jsval \<Rightarrow> js_error + invocation_result" where
  "list_github_issues owner repo octokit args =
     bindE (destructure ''args'' args ''state'') (\<lambda>state.
     bindE (destructure ''args'' args ''labels'') (\<lambda>labels.
     bindE (destructure ''args'' args ''limit'') (\<lambda>limit.
     bindE (to_number (default_to (JNum 10) limit)) (\<lambda>l.
     bindE (octokit (IssuesList owner repo (default_to (JStr ''open'') state)
                       (math_min l (Fin 100))
                       (if truthy labels then Some labels else None))) (\<lambda>issues.
     bindE (call_map ''issues'' issues (\<lambda>issue.
              bindE (get_prop issue ''number'') (\<lambda>number.
              bindE (get_prop issue ''title'') (\<lambda>title.
              bindE (get_prop issue ''state'') (\<lambda>state.
              bindE (get_prop issue ''html_url'') (\<lambda>url.
              bindE (get_prop issue ''created_at'') (\<lambda>created_at.
              bindE (get_prop issue ''labels'') (\<lambda>issue_labels.
              bindE (call_map ''issue.labels'' issue_labels (\<lambda>label. get_prop label ''name''))
                (\<lambda>names.
              Inr (JObj [(''number'', number), (''title'', title), (''state'', state),
                         (''url'', url), (''created_at'', created_at),
                         (''labels'', JArr names)])))))))))) (\<lambda>issueList.
     bindE (get_prop issues ''length'') (\<lambda>len.
     bindE (template [lit ''Found '', sub (Inr len), lit ('' issues:'' @ nl @ nl)]) (\<lambda>head.
     bindE (mapE (\<lambda>issue. template
              [lit ''#'', sub (get_prop issue ''number''), lit '': '',
               sub (get_prop issue ''title''), lit '' ('', sub (get_prop issue ''state''),
               lit ('')'' @ nl @ ''  ''), sub (get_prop issue ''url'')]) issueList) (\<lambda>lines.
     Inr (text_result (head @ join (nl @ nl) lines)))))))))))"

definition get_github_issue ::
  "string \<Rightarrow> string \<Rightarrow> octokit \<Rightarrow> jsval \<Rightarrow> js_error + invocation_result" where
  "get_github_issue owner repo octokit args =
     bindE (destructure ''args'' args ''issue_number'') (\<lambda>issue_number.
     bindE (octokit (IssuesGet owner repo issue_number)) (\<lambda>issue.
     bindE (template
              [lit ''Issue #'', sub (get_prop issue ''number''), lit '': '',
               sub (get_prop issue ''title''), lit (nl @ nl @ ''State: ''),
               sub (get_prop issue ''state''), lit (nl @ ''Created: ''),
               sub (get_prop issue ''created_at''), lit (nl @ ''Updated: ''),
               sub (get_prop issue ''updated_at''), lit (nl @ ''URL: ''),
               sub (get_prop issue ''html_url''), lit (nl @ nl @ ''Body:'' @ nl),
               sub (bindE (get_prop issue ''body'')
                      (\<lambda>body. Inr (js_or body (JStr ''No description provided.''))))]) (\<lambda>t.
     Inr (text_result t))))"

text \<open>
  The \<^verbatim>\<open>switch (name)\<close> inside the \<^verbatim>\<open>try\<close>: the case clauses in source order, the first
  label equal to the requested name (\<open>tool_name\<close> here, \<open>name\<close> being a field of the
  descriptors) selecting the block; the \<^verbatim>\<open>default\<close> clause throws.
\<close>

definition github_cases ::
  "(string \<times> (string \<Rightarrow> string \<Rightarrow> octokit \<Rightarrow> jsval \<Rightarrow> js_error + invocation_result)) list" where
  "github_cases =
     [(''create_github_issue'', create_github_issue),
      (''list_github_issues'', list_github_issues),
      (''get_github_issue'', get_github_issue)]"

definition github_switch ::
  "string \<Rightarrow> string \<Rightarrow> octokit \<Rightarrow> string \<Rightarrow> jsval \<Rightarrow> js_error + invocation_result" where
  "github_switch owner repo octokit tool_name args =
     (case map_of github_cases tool_name of
        Some block \<Rightarrow> block owner repo octokit args
      | None \<Rightarrow> Inl (Error (''Unknown tool: '' @ tool_name)))"

text \<open>
  The handler of \<^verbatim>\<open>CallToolRequestSchema\<close>: the \<^verbatim>\<open>try\<close> around the switch returns the
  block's result, the \<^verbatim>\<open>catch\<close> turns whatever was thrown into an error result.
\<close>

definition github_call_tool ::
  "string \<Rightarrow> string \<Rightarrow> octokit \<Rightarrow> string \<Rightarrow> jsval \<Rightarrow> invocation_result" where
  "github_call_tool owner repo octokit tool_name args =
     (case github_switch owner repo octokit tool_name args of
        Inr result \<Rightarrow> result
      | Inl error \<Rightarrow> error_result error)"


text \<open>
  \<^verbatim>\<open>verifyGitHubConnection\<close>: the probe and the log line that reads \<^verbatim>\<open>data.full_name\<close>
  are inside one \<^verbatim>\<open>try\<close>; anything thrown there gives \<^verbatim>\<open>false\<close>.
\<close>

definition verifyGitHubConnection :: "string \<Rightarrow> string \<Rightarrow> octokit \<Rightarrow> bool" where
  "verifyGitHubConnection owner repo octokit =
     (case bindE (octokit (ReposGet owner repo)) (\<lambda>data. sub (get_prop data ''full_name'')) of
        Inr line \<Rightarrow> True
      | Inl error \<Rightarrow> False)"

text \<open>
  The module from top to bottom, then \<^verbatim>\<open>start()\<close>: what the process does to the outside,
  in order, for an environment and a client. \<^verbatim>\<open>process.exit\<close> ends the trace.
\<close>

definition github_main :: "(string \<Rightarrow> string option) \<Rightarrow> octokit \<Rightarrow> event list" where
  "github_main env octokit =
     (if env_missing (env ''GITHUB_TOKEN'') then [ProcessExit 1]
      else (case env ''GITHUB_REPO'' of
        None \<Rightarrow> [ProcessExit 1]
      | Some GITHUB_REPO \<Rightarrow>
          if GITHUB_REPO = [] then [ProcessExit 1]
          else (case split_on CHR ''/'' GITHUB_REPO of
            owner # repo # rest \<Rightarrow>
              if owner = [] \<or> repo = [] then [ProcessExit 1]
              else if \<not> verifyGitHubConnection owner repo octokit then [ProcessExit 1]
              else [AppListen (port_or (env ''PORT'') 8001), ServerConnect]
          | parts \<Rightarrow> [ProcessExit 1])))"


section \<open>The Merge server (servers/merge-mcp/src/index.js)\<close>

text \<open>
  \<^verbatim>\<open>fetch(url, options)\<close> is the platform's and a parameter of the model: a function from
  the request to its outcome. \<open>Inl e\<close> is a rejected promise (no response at all);
  otherwise there is a response with a status, whose body can be read as text or parsed
  as JSON, and either reading can fail. The \<open>body\<close> of a request is the value handed
  to \<^verbatim>\<open>JSON.stringify\<close>, \<open>None\<close> when \<^verbatim>\<open>options.body\<close> is not set.
\<close>

record fetch_request =
  url :: string
  http_method :: string
  headers :: "(string \<times> string) list"
  body :: "jsval option"

record fetch_response =
  status :: nat
  response_text :: "js_error + string"
  response_json :: "js_error + jsval"

type_synonym fetch = "fetch_request \<Rightarrow> js_error + fetch_response"

text \<open>\<^verbatim>\<open>response.ok\<close>.\<close>

definition ok :: "fetch_response \<Rightarrow> bool" where
  "ok response = (200 \<le> status response \<and> status response \<le> 299)"

text \<open>The fields of \<^verbatim>\<open>MergeAPIClient\<close>, set by its constructor.\<close>

record MergeAPIClient =
  apiKey :: string
  accountToken :: string
  baseURL :: string

definition new_MergeAPIClient :: "string \<Rightarrow> string \<Rightarrow> MergeAPIClient" where
  "new_MergeAPIClient key token =
     \<lparr>apiKey = key, accountToken = token, baseURL = ''https://api.merge.dev/api''\<rparr>"

text \<open>
  \<^verbatim>\<open>makeRequest(endpoint, method, data)\<close>: first the \<^verbatim>\<open>url\<close> and the \<^verbatim>\<open>options\<close> it hands
  to \<^verbatim>\<open>fetch\<close>, then the call. The \<^verbatim>\<open>catch\<close> logs and rethrows, so what is thrown inside
  the \<^verbatim>\<open>try\<close> is what the caller gets.
\<close>

definition request_options :: "MergeAPIClient \<Rightarrow> string \<Rightarrow> string \<Rightarrow> jsval \<Rightarrow> fetch_request" where
  "request_options this endpoint method' data =
     \<lparr>url = baseURL this @ endpoint,
      http_method = method',
      headers = [(''Authorization'', ''Bearer '' @ apiKey this),
                 (''X-Account-Token'', accountToken this),
                 (''Content-Type'', ''application/json''),
                 (''User-Agent'', ''MCP-Demo/1.0.0'')],
      body = (if truthy data \<and> method' \<noteq> ''GET'' then Some data else None)\<rparr>"

definition makeRequest ::
  "MergeAPIClient \<Rightarrow> fetch \<Rightarrow> string \<Rightarrow> string \<Rightarrow> jsval \<Rightarrow> js_error + jsval" where
  "makeRequest this fetch endpoint method' data =
     bindE (fetch (request_options this endpoint method' data))
       (\<lambda>response.
          if \<not> ok response
          then bindE (response_text response) (\<lambda>errorText.
                 Inl (Error (''Merge API error '' @ show_nat (status response) @ '': '' @ errorText)))
          else response_json response)"

text \<open>
  The methods of the client that the server calls. A parameter default (\<^verbatim>\<open>cursor = null\<close>,
  \<^verbatim>\<open>pageSize = 20\<close>) replaces \<^verbatim>\<open>undefined\<close> only.
\<close>

definition createContact :: "MergeAPIClient \<Rightarrow> fetch \<Rightarrow> jsval \<Rightarrow> js_error + jsval" where
  "createContact this fetch contactData =
     makeRequest this fetch ''/crm/v1/contacts'' ''POST'' (JObj [(''model'', contactData)])"

definition getContact :: "MergeAPIClient \<Rightarrow> fetch \<Rightarrow> jsval \<Rightarrow> js_error + jsval" where
  "getContact this fetch contactId =
     bindE (template [lit ''/crm/v1/contacts/'', sub (Inr contactId)]) (\<lambda>endpoint.
     makeRequest this fetch endpoint ''GET'' JNull)"

definition getOpportunities ::
  "MergeAPIClient \<Rightarrow> fetch \<Rightarrow> jsval \<Rightarrow> jsval \<Rightarrow> js_error + jsval" where
  "getOpportunities this fetch cursor pageSize =
     bindE (template [lit ''/crm/v1/opportunities?page_size='',
                      sub (Inr (default_to (JNum 20) pageSize))]) (\<lambda>endpoint.
     bindE (if truthy (default_to JNull cursor)
            then template [lit endpoint, lit ''&cursor='', sub (Inr cursor)]
            else Inr endpoint) (\<lambda>endpoint.
     makeRequest this fetch endpoint ''GET'' JNull))"

definition createOpportunity :: "MergeAPIClient \<Rightarrow> fetch \<Rightarrow> jsval \<Rightarrow> js_error + jsval" where
  "createOpportunity this fetch opportunityData =
     makeRequest this fetch ''/crm/v1/opportunities'' ''POST'' (JObj [(''model'', opportunityData)])"

definition getAccounts ::
  "MergeAPIClient \<Rightarrow> fetch \<Rightarrow> jsval \<Rightarrow> jsval \<Rightarrow> js_error + jsval" where
  "getAccounts this fetch cursor pageSize =
     bindE (template [lit ''/crm/v1/accounts?page_size='',
                      sub (Inr (default_to (JNum 20) pageSize))]) (\<lambda>endpoint.
     bindE (if truthy (default_to JNull cursor)
            then template [lit endpoint, lit ''&cursor='', sub (Inr cursor)]
            else Inr endpoint) (\<lambda>endpoint.
     makeRequest this fetch endpoint ''GET'' JNull))"

definition getAccountDetails :: "MergeAPIClient \<Rightarrow> fetch \<Rightarrow> js_error + jsval" where
  "getAccountDetails this fetch = makeRequest this fetch ''/crm/v1/account-details'' ''GET'' JNull"

text \<open>
  The callback of the filter in \<^verbatim>\<open>searchCRM\<close>: does the search term occur in the lowered
  first name, last name, or one of the e-mail addresses of the contact?
\<close>

definition contact_matches :: "string \<Rightarrow> jsval \<Rightarrow> js_error + jsval" where
  "contact_matches searchTerm contact =
     orE (bindE (get_prop contact ''first_name'') (\<lambda>first_name.
            opt_lower_includes ''contact.first_name'' first_name searchTerm))
    (orE (bindE (get_prop contact ''last_name'') (\<lambda>last_name.
            opt_lower_includes ''contact.last_name'' last_name searchTerm))
         (bindE (get_prop contact ''email_addresses'') (\<lambda>email_addresses.
            opt_some ''contact.email_addresses'' email_addresses (\<lambda>email.
              bindE (get_prop email ''email_address'') (\<lambda>email_address.
                opt_lower_includes ''email.email_address'' email_address searchTerm)))))"

definition searchCRM :: "MergeAPIClient \<Rightarrow> fetch \<Rightarrow> jsval \<Rightarrow> js_error + jsval" where
  "searchCRM this fetch query =
     bindE (makeRequest this fetch ''/crm/v1/contacts'' ''GET'' JNull) (\<lambda>response.
       if \<not> truthy query then Inr response
       else
         bindE (call_toLowerCase ''query'' query) (\<lambda>searchTerm.
         bindE (get_prop response ''results'') (\<lambda>results.
         bindE (opt_filter ''response.results'' results (contact_matches searchTerm)) (\<lambda>filtered.
         Inr (JObj (AList.update ''results'' (js_or filtered (JArr [])) (own_props response)))))))"


definition merge_list_tools :: "tool_descriptor list" where
  "merge_list_tools =
     [\<lparr>name = ''create_crm_contact'',
       description = ''Create a new contact in your CRM via Merge unified API'',
       inputSchema = JObj
         [(''type'', JStr ''object''),
          (''properties'', JObj
            [(''first_name'', JObj
               [(''type'', JStr ''string''), (''description'', JStr ''First name'')]),
             (''last_name'', JObj
               [(''type'', JStr ''string''), (''description'', JStr ''Last name'')]),
             (''email_addresses'', JObj
               [(''type'', JStr ''array''),
                (''items'', JObj
                  [(''type'', JStr ''object''),
                   (''properties'', JObj
                     [(''email_address'', JObj [(''type'', JStr ''string'')]),
                      (''email_address_type'', JObj
                        [(''type'', JStr ''string''),
                         (''enum'', JArr [JStr ''PERSONAL'', JStr ''WORK'', JStr ''OTHER'']),
                         (''default'', JStr ''WORK'')])])]),
                (''description'', JStr ''Email addresses'')]),
             (''phone_numbers'', JObj
               [(''type'', JStr ''array''),
                (''items'', JObj
                  [(''type'', JStr ''object''),
                   (''properties'', JObj
                     [(''phone_number'', JObj [(''type'', JStr ''string'')]),
                      (''phone_number_type'', JObj
                        [(''type'', JStr ''string''),
                         (''enum'', JArr [JStr ''HOME'', JStr ''WORK'', JStr ''MOBILE'',
                                          JStr ''OTHER'']),
                         (''default'', JStr ''WORK'')])])]),
                (''description'', JStr ''Phone numbers'')]),
             (''account'', JObj
               [(''type'', JStr ''string''),
                (''description'', JStr ''Company/Account ID to associate with'')])]),
          (''required'', JArr [JStr ''first_name'', JStr ''last_name''])]\<rparr>,
      \<lparr>name = ''search_crm_contacts'',
       description = ''Search for contacts in your CRM via Merge'',
       inputSchema = JObj
         [(''type'', JStr ''object''),
          (''properties'', JObj
            [(''query'', JObj
               [(''type'', JStr ''string''),
                (''description'', JStr ''Search term (name or email)'')]),
             (''limit'', JObj
               [(''type'', JStr ''number''),
                (''description'', JStr ''Maximum number of results''),
                (''default'', JNum 10),
                (''maximum'', JNum 100)])])]\<rparr>,
      \<lparr>name = ''get_crm_contact'',
       description = ''Get detailed information about a specific CRM contact'',
       inputSchema = JObj
         [(''type'', JStr ''object''),
          (''properties'', JObj
            [(''contact_id'', JObj
               [(''type'', JStr ''string''),
                (''description'', JStr ''The Merge contact ID'')])]),
          (''required'', JArr [JStr ''contact_id''])]\<rparr>,
      \<lparr>name = ''create_crm_opportunity'',
       description = ''Create a new sales opportunity/deal in your CRM via Merge'',
       inputSchema = JObj
         [(''type'', JStr ''object''),
          (''properties'', JObj
            [(''name'', JObj
               [(''type'', JStr ''string''), (''description'', JStr ''Opportunity name'')]),
             (''description'', JObj
               [(''type'', JStr ''string''),
                (''description'', JStr ''Opportunity description'')]),
             (''amount'', JObj
               [(''type'', JStr ''number''), (''description'', JStr ''Deal amount/value'')]),
             (''contact'', JObj
               [(''type'', JStr ''string''),
                (''description'', JStr ''Contact ID to associate with this opportunity'')]),
             (''account'', JObj
               [(''type'', JStr ''string''), (''description'', JStr ''Account/Company ID'')]),
             (''stage'', JObj
               [(''type'', JStr ''string''), (''description'', JStr ''Sales stage/status'')])]),
          (''required'', JArr [JStr ''name''])]\<rparr>,
      \<lparr>name = ''list_crm_opportunities'',
       description = ''List recent opportunities/deals from your CRM'',
       inputSchema = JObj
         [(''type'', JStr ''object''),
          (''properties'', JObj
            [(''limit'', JObj
               [(''type'', JStr ''number''),
                (''description'', JStr ''Maximum number of results''),
                (''default'', JNum 10),
                (''maximum'', JNum 100)])])]\<rparr>,
      \<lparr>name = ''get_crm_accounts'',
       description = ''List companies/accounts from your CRM via Merge'',
       inputSchema = JObj
         [(''type'', JStr ''object''),
          (''properties'', JObj
            [(''limit'', JObj
               [(''type'', JStr ''number''),
                (''description'', JStr ''Maximum number of results''),
                (''default'', JNum 10),
                (''maximum'', JNum 100)])])]\<rparr>]"

text \<open>\<^verbatim>\<open>v.model?.k\<close>, which the two creating tools read of the upstream's answer.\<close>

definition model_prop :: "jsval \<Rightarrow> string \<Rightarrow> js_error + jsval" where
  "model_prop v k = bindE (get_prop v ''model'') (\<lambda>model. Inr (opt_prop model k))"

text \<open>\<^verbatim>\<open>v.email_addresses?.[0]?.email_address\<close> and its sibling for phone numbers.\<close>

definition first_of :: "jsval \<Rightarrow> string \<Rightarrow> string \<Rightarrow> js_error + jsval" where
  "first_of v list_key k = bindE (get_prop v list_key) (\<lambda>xs. Inr (opt_prop (opt_first xs) k))"

text \<open>The six \<^verbatim>\<open>case\<close> blocks of the dispatcher, each named after its label.\<close>

definition create_crm_contact ::
  "MergeAPIClient \<Rightarrow> fetch \<Rightarrow> jsval \<Rightarrow> js_error + invocation_result" where
  "create_crm_contact mergeClient fetch args =
     bindE (createContact mergeClient fetch args) (\<lambda>result.
     bindE (template
              [lit (''Successfully created CRM contact via Merge!'' @ nl),
               lit ''ID: '', sub (orE (model_prop result ''id'') (Inr (JStr ''N/A''))), lit nl,
               lit ''Name: '', sub (model_prop result ''first_name''), lit '' '',
               sub (model_prop result ''last_name''), lit nl,
               lit ''Email: '',
               sub (orE (bindE (get_prop result ''model'') (\<lambda>model.
                           Inr (opt_prop (opt_first (opt_prop model ''email_addresses''))
                                  ''email_address'')))
                        (Inr (JStr ''N/A''))), lit nl,
               lit ''Status: '',
               sub (bindE (get_prop result ''model'') (\<lambda>model.
                      Inr (JStr (if truthy model then ''Created'' else ''Pending sync'')))), lit nl,
               lit ''Remote ID: '',
               sub (orE (model_prop result ''remote_id'') (Inr (JStr ''Will be assigned'')))])
       (\<lambda>t. Inr (text_result t)))"

text \<open>
  The callback of \<^verbatim>\<open>contacts.map\<close> in the \<^verbatim>\<open>search_crm_contacts\<close> block: the line that lists
  one contact.
\<close>

definition contact_line :: "jsval \<Rightarrow> js_error + string" where
  "contact_line contact =
     bindE (orE (first_of contact ''email_addresses'' ''email_address'')
                (Inr (JStr ''No email''))) (\<lambda>email.
     bindE (template
              [sub (orE (get_prop contact ''first_name'') (Inr (JStr []))), lit '' '',
               sub (orE (get_prop contact ''last_name'') (Inr (JStr [])))]) (\<lambda>full.
     bindE (Inr (trim full)) (\<lambda>name'.
     template [lit name', lit '' ('', sub (Inr email), lit '') - ID: '',
               sub (get_prop contact ''id'')])))"

definition search_crm_contacts ::
  "MergeAPIClient \<Rightarrow> fetch \<Rightarrow> jsval \<Rightarrow> js_error + invocation_result" where
  "search_crm_contacts mergeClient fetch args =
     bindE (destructure ''args'' args ''query'') (\<lambda>query.
     bindE (destructure ''args'' args ''limit'') (\<lambda>limit.
     bindE (searchCRM mergeClient fetch query) (\<lambda>result.
     bindE (get_prop result ''results'') (\<lambda>results.
     bindE (opt_slice0 ''result.results'' results (default_to (JNum 10) limit)) (\<lambda>sliced.
     bindE (Inr (js_or sliced (JArr []))) (\<lambda>contacts.
     bindE (get_prop contacts ''length'') (\<lambda>len.
       if len = JNum 0
       then bindE (template
                     [lit ''No contacts found'',
                      if truthy query
                      then template [lit ('' for '' @ dq), sub (Inr query), lit dq]
                      else lit []]) (\<lambda>t.
            Inr (text_result t))
       else
         bindE (call_map ''contacts'' contacts contact_line) (\<lambda>lines.
         bindE (Inr (join nl lines)) (\<lambda>contactList.
         bindE (template [lit ''Found '', sub (Inr len), lit ('' contact(s):'' @ nl @ nl),
                          lit contactList]) (\<lambda>t.
         Inr (text_result t)))))))))))"

definition get_crm_contact ::
  "MergeAPIClient \<Rightarrow> fetch \<Rightarrow> jsval \<Rightarrow> js_error + invocation_result" where
  "get_crm_contact mergeClient fetch args =
     bindE (destructure ''args'' args ''contact_id'') (\<lambda>contact_id.
     bindE (getContact mergeClient fetch contact_id) (\<lambda>contact.
     bindE (orE (first_of contact ''email_addresses'' ''email_address'')
                (Inr (JStr ''No email''))) (\<lambda>email.
     bindE (orE (first_of contact ''phone_numbers'' ''phone_number'')
                (Inr (JStr ''No phone''))) (\<lambda>phone.
     bindE (template
              [sub (orE (get_prop contact ''first_name'') (Inr (JStr []))), lit '' '',
               sub (orE (get_prop contact ''last_name'') (Inr (JStr [])))]) (\<lambda>full.
     bindE (Inr (trim full)) (\<lambda>name'.
     bindE (template
              [lit (''Contact Details:'' @ nl),
               lit ''Name: '', lit name', lit nl,
               lit ''Email: '', sub (Inr email), lit nl,
               lit ''Phone: '', sub (Inr phone), lit nl,
               lit ''ID: '', sub (get_prop contact ''id''), lit nl,
               lit ''Remote ID: '',
               sub (orE (get_prop contact ''remote_id'') (Inr (JStr ''N/A''))), lit nl,
               lit ''Created: '',
               sub (orE (get_prop contact ''created_at'') (Inr (JStr ''Unknown''))), lit nl,
               lit ''Modified: '',
               sub (orE (get_prop contact ''modified_at'') (Inr (JStr ''Unknown'')))]) (\<lambda>t.
     Inr (text_result t))))))))"

definition create_crm_opportunity ::
  "MergeAPIClient \<Rightarrow> fetch \<Rightarrow> jsval \<Rightarrow> js_error + invocation_result" where
  "create_crm_opportunity mergeClient fetch args =
     bindE (createOpportunity mergeClient fetch args) (\<lambda>result.
     bindE (template
              [lit (''Successfully created CRM opportunity via Merge!'' @ nl),
               lit ''ID: '', sub (orE (model_prop result ''id'') (Inr (JStr ''N/A''))), lit nl,
               lit ''Name: '',
               sub (orE (model_prop result ''name'') (get_prop args ''name'')), lit nl,
               lit ''Amount: '',
               sub (orE (model_prop result ''amount'')
                        (orE (get_prop args ''amount'') (Inr (JNum 0)))), lit nl,
               lit ''Stage: '',
               sub (orE (model_prop result ''stage'')
                        (orE (get_prop args ''stage'') (Inr (JStr ''Not set'')))), lit nl,
               lit ''Status: '',
               sub (bindE (get_prop result ''model'') (\<lambda>model.
                      Inr (JStr (if truthy model then ''Created'' else ''Pending sync'')))), lit nl,
               lit ''Remote ID: '',
               sub (orE (model_prop result ''remote_id'') (Inr (JStr ''Will be assigned'')))])
       (\<lambda>t. Inr (text_result t)))"

definition list_crm_opportunities ::
  "MergeAPIClient \<Rightarrow> fetch \<Rightarrow> jsval \<Rightarrow> js_error + invocation_result" where
  "list_crm_opportunities mergeClient fetch args =
     bindE (destructure ''args'' args ''limit'') (\<lambda>limit.
     bindE (getOpportunities mergeClient fetch JNull (default_to (JNum 10) limit)) (\<lambda>result.
     bindE (orE (get_prop result ''results'') (Inr (JArr []))) (\<lambda>opportunities.
     bindE (get_prop opportunities ''length'') (\<lambda>len.
       if len = JNum 0
       then Inr (text_result ''No opportunities found in your CRM'')
       else
         bindE (call_map ''opportunities'' opportunities (\<lambda>opp.
                  bindE (get_prop opp ''amount'') (\<lambda>opp_amount.
                  bindE (if truthy opp_amount then template [sub (Inr opp_amount)]
                         else Inr ''No amount'') (\<lambda>amount.
                  template [sub (orE (get_prop opp ''name'') (Inr (JStr ''Unnamed''))),
                            lit '' - '', lit amount, lit '' ('',
                            sub (orE (get_prop opp ''stage'') (Inr (JStr ''No stage''))),
                            lit '') - ID: '', sub (get_prop opp ''id'')])))) (\<lambda>lines.
         bindE (Inr (join nl lines)) (\<lambda>oppList.
         bindE (template [lit ''Found '', sub (Inr len), lit '' opportunit'',
                          lit (if len = JNum 1 then ''y'' else ''ies''), lit ('':'' @ nl @ nl),
                          lit oppList]) (\<lambda>t.
         Inr (text_result t))))))))"

definition get_crm_accounts ::
  "MergeAPIClient \<Rightarrow> fetch \<Rightarrow> jsval \<Rightarrow> js_error + invocation_result" where
  "get_crm_accounts mergeClient fetch args =
     bindE (destructure ''args'' args ''limit'') (\<lambda>limit.
     bindE (getAccounts mergeClient fetch JNull (default_to (JNum 10) limit)) (\<lambda>result.
     bindE (orE (get_prop result ''results'') (Inr (JArr []))) (\<lambda>accounts.
     bindE (get_prop accounts ''length'') (\<lambda>len.
       if len = JNum 0
       then Inr (text_result ''No accounts/companies found in your CRM'')
       else
         bindE (call_map ''accounts'' accounts (\<lambda>account.
                  template [sub (orE (get_prop account ''name'') (Inr (JStr ''Unnamed Company''))),
                            lit '' - ID: '', sub (get_prop account ''id''),
                            bindE (get_prop account ''industry'') (\<lambda>industry.
                              if truthy industry
                              then template [lit '' ('', sub (Inr industry), lit '')'']
                              else lit [])])) (\<lambda>lines.
         bindE (Inr (join nl lines)) (\<lambda>accountList.
         bindE (template [lit ''Found '', sub (Inr len), lit ('' account(s):'' @ nl @ nl),
                          lit accountList]) (\<lambda>t.
         Inr (text_result t))))))))"

definition merge_cases ::
  "(string \<times> (MergeAPIClient \<Rightarrow> fetch \<Rightarrow> jsval \<Rightarrow> js_error + invocation_result)) list" where
  "merge_cases =
     [(''create_crm_contact'', create_crm_contact),
      (''search_crm_contacts'', search_crm_contacts),
      (''get_crm_contact'', get_crm_contact),
      (''create_crm_opportunity'', create_crm_opportunity),
      (''list_crm_opportunities'', list_crm_opportunities),
      (''get_crm_accounts'', get_crm_accounts)]"

definition merge_switch ::
  "MergeAPIClient \<Rightarrow> fetch \<Rightarrow> string \<Rightarrow> jsval \<Rightarrow> js_error + invocation_result" where
  "merge_switch mergeClient fetch tool_name args =
     (case map_of merge_cases tool_name of
        Some block \<Rightarrow> block mergeClient fetch args
      | None \<Rightarrow> Inl (Error (''Unknown tool: '' @ tool_name)))"

definition merge_call_tool ::
  "MergeAPIClient \<Rightarrow> fetch \<Rightarrow> string \<Rightarrow> jsval \<Rightarrow> invocation_result" where
  "merge_call_tool mergeClient fetch tool_name args =
     (case merge_switch mergeClient fetch tool_name args of
        Inr result \<Rightarrow> result
      | Inl error \<Rightarrow> error_result error)"


text \<open>
  \<^verbatim>\<open>verifyMergeConnection\<close>: the probe and the log lines that read the account details are
  inside one \<^verbatim>\<open>try\<close>; anything thrown there gives \<^verbatim>\<open>false\<close>.
\<close>

definition verifyMergeConnection :: "MergeAPIClient \<Rightarrow> fetch \<Rightarrow> bool" where
  "verifyMergeConnection mergeClient fetch =
     (case bindE (getAccountDetails mergeClient fetch) (\<lambda>accountDetails.
             bindE (sub (orE (bindE (get_prop accountDetails ''integration'')
                                (\<lambda>integration. Inr (opt_prop integration ''name'')))
                             (Inr (JStr ''Unknown'')))) (\<lambda>provider.
             sub (get_prop accountDetails ''id''))) of
        Inr line \<Rightarrow> True
      | Inl error \<Rightarrow> False)"

definition merge_main :: "(string \<Rightarrow> string option) \<Rightarrow> fetch \<Rightarrow> event list" where
  "merge_main env fetch =
     (case env ''MERGE_API_KEY'' of
        None \<Rightarrow> [ProcessExit 1]
      | Some MERGE_API_KEY \<Rightarrow>
          if MERGE_API_KEY = [] then [ProcessExit 1]
          else (case env ''MERGE_ACCOUNT_TOKEN'' of
            None \<Rightarrow> [ProcessExit 1]
          | Some MERGE_ACCOUNT_TOKEN \<Rightarrow>
              if MERGE_ACCOUNT_TOKEN = [] then [ProcessExit 1]
              else if \<not> verifyMergeConnection
                           (new_MergeAPIClient MERGE_API_KEY MERGE_ACCOUNT_TOKEN) fetch
              then [ProcessExit 1]
              else [AppListen (port_or (env ''PORT'') 8002), ServerConnect]))"


section \<open>Arguments that convert\<close>

text \<open>
  A value is plain when no object in it has an own property named \<^verbatim>\<open>toString\<close>. These are
  the values whose conversion to a string or to a number cannot throw. Arguments of the
  kinds the catalogs declare (strings, numbers, lists of strings, objects with the declared
  properties) are plain.
\<close>

fun plain :: "jsval \<Rightarrow> bool" where
  "plain (JArr xs) = list_all plain xs"
| "plain (JObj kvs) = (''toString'' \<notin> fst ` set kvs \<and> list_all plain (map snd kvs))"
| "plain v = True"

section \<open>What the search is said to do\<close>

text \<open>
  The search of contacts as the specification words it: the query occurs, case ignored,
  as a substring of the first name, the last name or one of the e-mail addresses of the
  contact. This is what the filter of \<^verbatim>\<open>searchCRM\<close> is compared with; it is written from
  those words, not from the code.
\<close>

definition field_has :: "string \<Rightarrow> jsval \<Rightarrow> bool" where
  "field_has query v =
     (case v of JStr s \<Rightarrow> str_includes (toLowerCase s) (toLowerCase query) | _ \<Rightarrow> False)"

definition spec_contact_matches :: "string \<Rightarrow> jsval \<Rightarrow> bool" where
  "spec_contact_matches query contact =
     (field_has query (opt_prop contact ''first_name'')
      \<or> field_has query (opt_prop contact ''last_name'')
      \<or> (case opt_prop contact ''email_addresses'' of
            JArr emails \<Rightarrow> list_ex (\<lambda>email. field_has query (opt_prop email ''email_address'')) emails
          | _ \<Rightarrow> False))"

text \<open>
  A well-formed contact: an object whose names are strings or missing, whose e-mail
  addresses, if any, are a list of objects with a string or missing address, and whose id
  is a plain value. On other values the filter or the listing can throw.
\<close>

fun string_or_nullish :: "jsval \<Rightarrow> bool" where
  "string_or_nullish (JStr s) = True"
| "string_or_nullish v = nullish v"

fun is_object :: "jsval \<Rightarrow> bool" where
  "is_object (JObj kvs) = True"
| "is_object v = False"

definition wf_contact :: "jsval \<Rightarrow> bool" where
  "wf_contact contact =
     (is_object contact
      \<and> string_or_nullish (opt_prop contact ''first_name'')
      \<and> string_or_nullish (opt_prop contact ''last_name'')
      \<and> (case opt_prop contact ''email_addresses'' of
            JArr emails \<Rightarrow>
              list_all (\<lambda>email. is_object email
                                \<and> string_or_nullish (opt_prop email ''email_address'')) emails
          | v \<Rightarrow> nullish v)
      \<and> plain (opt_prop contact ''id''))"

section \<open>Sessions\<close>



section \<open>Lemmas about the building blocks\<close>

lemma bindE_Inr_iff: "bindE m f = Inr r \<longleftrightarrow> (\<exists>x. m = Inr x \<and> f x = Inr r)"
  by (cases m) auto

lemma bindE_Inl_iff: "bindE m f = Inl e \<longleftrightarrow> (m = Inl e \<or> (\<exists>x. m = Inr x \<and> f x = Inl e))"
  by (cases m) auto

lemma str_includes_iff: "str_includes s t \<longleftrightarrow> (\<exists>p q. s = p @ t @ q)"
proof (induction s)
  case Nil
  then show ?case by auto
next
  case (Cons c cs)
  show ?case
  proof
    assume "str_includes (c # cs) t"
    then consider "prefix t (c # cs)" | "str_includes cs t" by auto
    then show "\<exists>p q. c # cs = p @ t @ q"
    proof cases
      case 1
      then obtain q where "c # cs = t @ q" by (auto simp: prefix_def)
      then have "c # cs = [] @ t @ q" by simp
      then show ?thesis by blast
    next
      case 2
      with Cons.IH obtain p q where "cs = p @ t @ q" by blast
      then have "c # cs = (c # p) @ t @ q" by simp
      then show ?thesis by blast
    qed
  next
    assume "\<exists>p q. c # cs = p @ t @ q"
    then obtain p q where pq: "c # cs = p @ t @ q" by blast
    show "str_includes (c # cs) t"
    proof (cases p)
      case Nil
      with pq have "prefix t (c # cs)" by (auto simp: prefix_def)
      then show ?thesis by simp
    next
      case (Cons a p')
      with pq have "cs = p' @ t @ q" by simp
      with Cons.IH have "str_includes cs t" by blast
      then show ?thesis by simp
    qed
  qed
qed

lemma str_includes_mid: "str_includes (p @ t @ q) t"
  unfolding str_includes_iff by blast

lemma map_of_Some_iff: "(\<exists>v. map_of xs k = Some v) \<longleftrightarrow> k \<in> set (map fst xs)"
  using map_of_eq_None_iff [of xs k] by (cases "map_of xs k") auto

lemma github_names: "map name github_list_tools = map fst github_cases"
  by (simp add: github_list_tools_def github_cases_def)

lemma merge_names: "map name merge_list_tools = map fst merge_cases"
  by (simp add: merge_list_tools_def merge_cases_def)

lemma github_cases_distinct: "distinct (map fst github_cases)"
  by (simp add: github_cases_def)

lemma merge_cases_distinct: "distinct (map fst merge_cases)"
  by (simp add: merge_cases_def)
















lemma merge_switch_cases:
  "merge_switch mergeClient fetch tool_name args =
     (if tool_name = ''create_crm_contact'' then create_crm_contact mergeClient fetch args
      else if tool_name = ''search_crm_contacts'' then search_crm_contacts mergeClient fetch args
      else if tool_name = ''get_crm_contact'' then get_crm_contact mergeClient fetch args
      else if tool_name = ''create_crm_opportunity''
        then create_crm_opportunity mergeClient fetch args
      else if tool_name = ''list_crm_opportunities''
        then list_crm_opportunities mergeClient fetch args
      else if tool_name = ''get_crm_accounts'' then get_crm_accounts mergeClient fetch args
      else Inl (Error (''Unknown tool: '' @ tool_name)))"
  by (simp add: merge_switch_def merge_cases_def)


lemma sequenceE_all_Inr:
  "(\<And>m. m \<in> set ms \<Longrightarrow> \<exists>x. m = Inr x) \<Longrightarrow> \<exists>ys. sequenceE ms = Inr ys"
proof (induction ms)
  case Nil
  then show ?case by simp
next
  case (Cons m ms)
  from Cons.prems obtain x where "m = Inr x" by auto
  moreover from Cons obtain ys where "sequenceE ms = Inr ys" by auto
  ultimately show ?case by simp
qed

lemma plain_to_string: "plain v \<Longrightarrow> \<exists>s. to_string v = Inr s"
proof (induction v rule: to_string.induct)
  case (6 xs)
  have "\<exists>ys. sequenceE (map (\<lambda>x. if nullish x then Inr [] else to_string x) xs) = Inr ys"
  proof (rule sequenceE_all_Inr)
    fix m assume "m \<in> set (map (\<lambda>x. if nullish x then Inr [] else to_string x) xs)"
    then obtain x where x: "x \<in> set xs" and m: "m = (if nullish x then Inr [] else to_string x)"
      by auto
    from x "6.prems" have "plain x" by (simp add: list_all_iff)
    with "6.IH" x m show "\<exists>y. m = Inr y" by (cases "nullish x") auto
  qed
  then show ?case by auto
qed auto












lemma opt_lower_includes_field:
  "string_or_nullish v \<Longrightarrow>
     \<exists>r. opt_lower_includes expr v (toLowerCase query) = Inr r \<and> truthy r = field_has query v"
  by (cases v) (auto simp: opt_lower_includes_def field_has_def)

lemma someE_emails:
  "list_all (\<lambda>email. is_object email \<and> string_or_nullish (opt_prop email ''email_address'')) emails \<Longrightarrow>
     someE (\<lambda>email. bindE (get_prop email ''email_address'') (\<lambda>email_address.
              opt_lower_includes ''email.email_address'' email_address (toLowerCase query))) emails
     = Inr (list_ex (\<lambda>email. field_has query (opt_prop email ''email_address'')) emails)"
proof (induction emails)
  case Nil
  then show ?case by simp
next
  case (Cons e es)
  from Cons.prems obtain kvs where e: "e = JObj kvs" by (cases e) auto
  from Cons.prems have "string_or_nullish (opt_prop e ''email_address'')" by simp
  then obtain r where r: "opt_lower_includes ''email.email_address'' (opt_prop e ''email_address'')
        (toLowerCase query) = Inr r" "truthy r = field_has query (opt_prop e ''email_address'')"
    using opt_lower_includes_field by blast
  from Cons have ih: "someE (\<lambda>email. bindE (get_prop email ''email_address'') (\<lambda>email_address.
              opt_lower_includes ''email.email_address'' email_address (toLowerCase query))) es
     = Inr (list_ex (\<lambda>email. field_has query (opt_prop email ''email_address'')) es)" by simp
  show ?case using r ih by (simp add: e opt_prop_def)
qed

lemma contact_matches_refines:
  assumes "wf_contact contact"
  shows "\<exists>v. contact_matches (toLowerCase query) contact = Inr v
             \<and> truthy v = spec_contact_matches query contact"
proof -
  from assms obtain kvs where c: "contact = JObj kvs" by (cases contact) (auto simp: wf_contact_def)
  have gp: "get_prop contact k = Inr (opt_prop contact k)" for k
    by (simp add: c opt_prop_def)
  from assms obtain a where a: "opt_lower_includes ''contact.first_name'' (opt_prop contact ''first_name'')
        (toLowerCase query) = Inr a" "truthy a = field_has query (opt_prop contact ''first_name'')"
    using opt_lower_includes_field [of "opt_prop contact ''first_name''"] by (auto simp: wf_contact_def)
  from assms obtain b where b: "opt_lower_includes ''contact.last_name'' (opt_prop contact ''last_name'')
        (toLowerCase query) = Inr b" "truthy b = field_has query (opt_prop contact ''last_name'')"
    using opt_lower_includes_field [of "opt_prop contact ''last_name''"] by (auto simp: wf_contact_def)
  have "\<exists>d. opt_some ''contact.email_addresses'' (opt_prop contact ''email_addresses'')
          (\<lambda>email. bindE (get_prop email ''email_address'') (\<lambda>email_address.
              opt_lower_includes ''email.email_address'' email_address (toLowerCase query))) = Inr d
        \<and> truthy d = (case opt_prop contact ''email_addresses'' of
            JArr emails \<Rightarrow> list_ex (\<lambda>email. field_has query (opt_prop email ''email_address'')) emails
          | _ \<Rightarrow> False)"
  proof (cases "opt_prop contact ''email_addresses''")
    case (JArr emails)
    with assms have "list_all (\<lambda>email. is_object email
        \<and> string_or_nullish (opt_prop email ''email_address'')) emails"
      by (simp add: wf_contact_def)
    from someE_emails [OF this, of query] JArr show ?thesis by simp
  qed (use assms in \<open>auto simp: wf_contact_def\<close>)
  then obtain d where d: "opt_some ''contact.email_addresses'' (opt_prop contact ''email_addresses'')
          (\<lambda>email. bindE (get_prop email ''email_address'') (\<lambda>email_address.
              opt_lower_includes ''email.email_address'' email_address (toLowerCase query))) = Inr d"
        "truthy d = (case opt_prop contact ''email_addresses'' of
            JArr emails \<Rightarrow> list_ex (\<lambda>email. field_has query (opt_prop email ''email_address'')) emails
          | _ \<Rightarrow> False)" by blast
  show ?thesis
    unfolding contact_matches_def spec_contact_matches_def gp
    using a b d by (auto simp: orE_def)
qed

lemma filterE_contacts:
  "list_all wf_contact contacts \<Longrightarrow>
     filterE (contact_matches (toLowerCase query)) contacts
     = Inr (filter (spec_contact_matches query) contacts)"
proof (induction contacts)
  case Nil
  then show ?case by simp
next
  case (Cons c cs)
  from Cons.prems have "wf_contact c" by simp
  then obtain v where "contact_matches (toLowerCase query) c = Inr v"
    "truthy v = spec_contact_matches query c"
    using contact_matches_refines by blast
  moreover from Cons have "filterE (contact_matches (toLowerCase query)) cs
     = Inr (filter (spec_contact_matches query) cs)" by simp
  ultimately show ?case by simp
qed

lemma sequenceE_length: "sequenceE ms = Inr ys \<Longrightarrow> length ys = length ms"
  by (induction ms arbitrary: ys) (auto simp: bindE_Inr_iff)

lemma mapE_length: "mapE f xs = Inr ys \<Longrightarrow> length ys = length xs"
  using sequenceE_length [of "map f xs" ys] by (simp add: mapE_def)

lemma js_or_string: "string_or_nullish v \<Longrightarrow> \<exists>s. js_or v (JStr d) = JStr s"
  by (cases v) (auto simp: js_or_def)

lemma contact_line_wf:
  assumes "wf_contact contact"
  shows "\<exists>l. contact_line contact = Inr l"
proof -
  from assms obtain kvs where c: "contact = JObj kvs" by (cases contact) (auto simp: wf_contact_def)
  have gp: "get_prop contact k = Inr (opt_prop contact k)" for k
    by (simp add: c opt_prop_def)
  have "string_or_nullish (opt_prop (opt_first (opt_prop contact ''email_addresses'')) ''email_address'')"
  proof (cases "opt_prop contact ''email_addresses''")
    case (JArr emails)
    with assms have "list_all (\<lambda>email. is_object email
        \<and> string_or_nullish (opt_prop email ''email_address'')) emails"
      by (simp add: wf_contact_def)
    with JArr show ?thesis by (cases emails) (auto simp: opt_prop_def)
  qed (use assms in \<open>auto simp: wf_contact_def opt_prop_def\<close>)
  then obtain email where email: "js_or (opt_prop (opt_first (opt_prop contact ''email_addresses''))
      ''email_address'') (JStr ''No email'') = JStr email"
    using js_or_string by blast
  from assms obtain fn where fn: "js_or (opt_prop contact ''first_name'') (JStr []) = JStr fn"
    using js_or_string [of "opt_prop contact ''first_name''"] by (auto simp: wf_contact_def)
  from assms obtain ln where ln: "js_or (opt_prop contact ''last_name'') (JStr []) = JStr ln"
    using js_or_string [of "opt_prop contact ''last_name''"] by (auto simp: wf_contact_def)
  from assms obtain i where i: "to_string (opt_prop contact ''id'') = Inr i"
    using plain_to_string [of "opt_prop contact ''id''"] by (auto simp: wf_contact_def)
  have o: "orE (Inr v) (Inr w) = Inr (js_or v w)" for v w
    by (simp add: orE_def js_or_def)
  show ?thesis
    by (simp add: contact_line_def first_of_def gp o email fn ln i template_def lit_def sub_def)
qed

lemma mapE_contact_line:
  "list_all wf_contact contacts \<Longrightarrow> \<exists>lines. mapE contact_line contacts = Inr lines"
  unfolding mapE_def
  by (rule sequenceE_all_Inr) (auto simp: list_all_iff dest: contact_line_wf)

lemma searchCRM_filters:
  assumes "query \<noteq> []"
    and "\<And>req. fetch req = Inr response" and "ok response"
    and "response_json response = Inr (JObj body')"
    and "map_of body' ''results'' = Some (JArr contacts)"
    and "list_all wf_contact contacts"
  shows "searchCRM mergeClient fetch (JStr query)
         = Inr (JObj (AList.update ''results''
                  (JArr (filter (spec_contact_matches query) contacts)) body'))"
  using assms filterE_contacts [OF assms(6), of query]
  by (simp add: searchCRM_def makeRequest_def js_or_def)

lemma search_head:
  assumes "query \<noteq> []"
    and "map_of kvs ''query'' = Some (JStr query)"
    and "(map_of kvs ''limit'' = None \<and> n = 10) \<or> map_of kvs ''limit'' = Some (JNum (int n))"
    and "\<And>req. fetch req = Inr response" and "ok response"
    and "response_json response = Inr (JObj body')"
    and "map_of body' ''results'' = Some (JArr contacts)"
    and "list_all wf_contact contacts"
  shows "bindE (destructure ''args'' (JObj kvs) ''query'') (\<lambda>query'.
       bindE (destructure ''args'' (JObj kvs) ''limit'') (\<lambda>limit.
       bindE (searchCRM mergeClient fetch query') (\<lambda>result.
       bindE (get_prop result ''results'') (\<lambda>results.
       bindE (opt_slice0 ''result.results'' results (default_to (JNum 10) limit)) (\<lambda>sliced.
       bindE (Inr (js_or sliced (JArr []))) (\<lambda>contacts'.
       bindE (get_prop contacts' ''length'') (\<lambda>len'. k query' contacts' len')))))))
     = k (JStr query) (JArr (take n (filter (spec_contact_matches query) contacts)))
         (JNum (int (length (take n (filter (spec_contact_matches query) contacts)))))"
proof -
  have s: "searchCRM mergeClient fetch (JStr query)
         = Inr (JObj (AList.update ''results''
                  (JArr (filter (spec_contact_matches query) contacts)) body'))"
    by (rule searchCRM_filters [OF assms(1) assms(4-8)])
  have lim: "to_number (default_to (JNum 10) (case map_of kvs ''limit'' of None \<Rightarrow> JUndefined
      | Some v \<Rightarrow> v)) = Inr (Fin (int n))"
    using assms(3) by (auto simp: default_to_def)
  have sl: "slice0 xs (Fin (int n)) = take n xs" for xs :: "jsval list"
    by (simp add: slice0_def min_def)
  show ?thesis
    using assms(2) by (simp add: s lim sl update_conv' js_or_def)
qed

lemma map_of_unknown:
  "tool_name \<notin> set (map fst cases) \<Longrightarrow> map_of cases tool_name = None"
  by (simp add: map_of_eq_None_iff)

section \<open>The claims\<close>

subsection \<open>Every call returns a well-formed result\<close>




subsection \<open>Unknown tool names\<close>

text \<open>
  Claim C2. In each server, a call whose tool name is not in the catalog returns an error
  result (\<^verbatim>\<open>isError\<close> true) whose text is \<^verbatim>\<open>Error: Unknown tool: \<close> followed by the name,
  so the text contains the invalid name.
\<close>

theorem unknown_tool_is_error:
  "(tool_name \<notin> set (map name github_list_tools) \<longrightarrow>
      github_call_tool owner repo octokit tool_name args =
        \<lparr>content = [\<lparr>block_type = ''text'', block_text = ''Error: Unknown tool: '' @ tool_name\<rparr>],
         isError = Some True\<rparr>)
   \<and> (tool_name \<notin> set (map name merge_list_tools) \<longrightarrow>
      merge_call_tool mergeClient fetch tool_name args =
        \<lparr>content = [\<lparr>block_type = ''text'', block_text = ''Error: Unknown tool: '' @ tool_name\<rparr>],
         isError = Some True\<rparr>)
   \<and> str_includes (''Error: Unknown tool: '' @ tool_name) tool_name"
proof -
  have "str_includes (''Error: Unknown tool: '' @ tool_name) tool_name"
    unfolding str_includes_iff by (rule exI [of _ "''Error: Unknown tool: ''"], rule exI [of _ "[]"]) simp
  moreover have "github_call_tool owner repo octokit tool_name args =
        \<lparr>content = [\<lparr>block_type = ''text'', block_text = ''Error: Unknown tool: '' @ tool_name\<rparr>],
         isError = Some True\<rparr>" if "tool_name \<notin> set (map name github_list_tools)"
    using that unfolding github_names
    by (simp add: github_call_tool_def github_switch_def map_of_unknown error_result_def del: set_map)
  moreover have "merge_call_tool mergeClient fetch tool_name args =
        \<lparr>content = [\<lparr>block_type = ''text'', block_text = ''Error: Unknown tool: '' @ tool_name\<rparr>],
         isError = Some True\<rparr>" if "tool_name \<notin> set (map name merge_list_tools)"
    using that unfolding merge_names
    by (simp add: merge_call_tool_def merge_switch_def map_of_unknown error_result_def del: set_map)
  ultimately show ?thesis by blast
qed

theorem unknown_tool_is_error_witness:
  "''delete_repo'' \<notin> set (map name github_list_tools)
   \<and> ''delete_repo'' \<notin> set (map name merge_list_tools)
   \<and> github_call_tool ''o'' ''r'' (\<lambda>c. Inr JNull) ''delete_repo'' (JObj []) =
        \<lparr>content = [\<lparr>block_type = ''text'', block_text = ''Error: Unknown tool: delete_repo''\<rparr>],
         isError = Some True\<rparr>
   \<and> merge_call_tool (new_MergeAPIClient ''k'' ''t'') (\<lambda>r. Inl (Error ''down'')) ''delete_repo'' (JObj []) =
        \<lparr>content = [\<lparr>block_type = ''text'', block_text = ''Error: Unknown tool: delete_repo''\<rparr>],
         isError = Some True\<rparr>
   \<and> str_includes ''Error: Unknown tool: delete_repo'' ''delete_repo''"
proof -
  have g: "''delete_repo'' \<notin> set (map name github_list_tools)"
    by (simp add: github_list_tools_def)
  have m: "''delete_repo'' \<notin> set (map name merge_list_tools)"
    by (simp add: merge_list_tools_def)
  show ?thesis
    using g m unknown_tool_is_error [of "''delete_repo''" "''o''" "''r''" "\<lambda>c. Inr JNull" "JObj []"
        "new_MergeAPIClient ''k'' ''t''" "\<lambda>r. Inl (Error ''down'')"]
    by simp
qed

subsection \<open>Upstream failures\<close>




subsection \<open>Catalog and dispatcher agree\<close>

text \<open>
  Claim C4. In each server, the names advertised by the catalog are exactly the labels of
  the case clauses of the dispatcher (the names that do not fall to \<^verbatim>\<open>default\<close>), and
  neither the catalog nor the switch has a name twice.
\<close>

theorem catalog_matches_dispatch:
  "set (map name github_list_tools) = {n. \<exists>block. map_of github_cases n = Some block}
   \<and> distinct (map name github_list_tools) \<and> distinct (map fst github_cases)
   \<and> set (map name merge_list_tools) = {n. \<exists>block. map_of merge_cases n = Some block}
   \<and> distinct (map name merge_list_tools) \<and> distinct (map fst merge_cases)"
proof -
  have g: "{n. \<exists>block. map_of github_cases n = Some block} = set (map fst github_cases)"
    unfolding map_of_Some_iff by simp
  have m: "{n. \<exists>block. map_of merge_cases n = Some block} = set (map fst merge_cases)"
    unfolding map_of_Some_iff by simp
  show ?thesis
    unfolding g m github_names merge_names
    using github_cases_distinct merge_cases_distinct by simp
qed

subsection \<open>Searching contacts\<close>

text \<open>
  Claim C5, as amended. \<^verbatim>\<open>search_crm_contacts\<close> called with a non-empty query, and a limit
  \<open>n\<close> that is a non-negative number (10 when absent), against an upstream page of
  well-formed contacts lists the first \<open>n\<close>, in the order of the page, of the contacts in
  which the query occurs, case ignored, in the first name, the last name or an e-mail
  address, one line each, and no other contact; it says that none was found when there is
  none. In particular the query \<^verbatim>\<open>alice\<close> over Alice and Bob lists Alice only.
\<close>

theorem search_lists_first_matches:
  assumes "query \<noteq> []"
    and "map_of kvs ''query'' = Some (JStr query)"
    and "(map_of kvs ''limit'' = None \<and> n = 10) \<or> map_of kvs ''limit'' = Some (JNum (int n))"
    and "\<And>req. fetch req = Inr response" and "ok response"
    and "response_json response = Inr (JObj body')"
    and "map_of body' ''results'' = Some (JArr contacts)"
    and "list_all wf_contact contacts"
  shows "\<exists>lines. mapE contact_line (take n (filter (spec_contact_matches query) contacts)) = Inr lines
           \<and> merge_call_tool mergeClient fetch ''search_crm_contacts'' (JObj kvs)
             = text_result (if lines = [] then ''No contacts found for '' @ dq @ query @ dq
                            else ''Found '' @ show_nat (length lines) @ '' contact(s):'' @ nl @ nl
                                 @ join nl lines)"
proof -
  define shown where "shown = take n (filter (spec_contact_matches query) contacts)"
  have "list_all wf_contact shown"
    using assms(8) by (auto simp: shown_def list_all_iff dest: in_set_takeD)
  then obtain lines where lines: "mapE contact_line shown = Inr lines"
    using mapE_contact_line by blast
  then have len: "length lines = length shown" by (rule mapE_length)
  have sn: "show_int (int k) = show_nat k" for k
    by (simp add: show_int_def)
  have sw0: "merge_switch mergeClient fetch ''search_crm_contacts'' (JObj kvs)
      = search_crm_contacts mergeClient fetch (JObj kvs)"
    by (simp add: merge_switch_cases)
  have body: "search_crm_contacts mergeClient fetch (JObj kvs) =
     (if JNum (int (length shown)) = JNum 0
       then bindE (template
                     [lit ''No contacts found'',
                      if truthy (JStr query)
                      then template [lit ('' for '' @ dq), sub (Inr (JStr query)), lit dq]
                      else lit []]) (\<lambda>t.
            Inr (text_result t))
       else
         bindE (call_map ''contacts'' (JArr shown) contact_line) (\<lambda>lines.
         bindE (Inr (join nl lines)) (\<lambda>contactList.
         bindE (template [lit ''Found '', sub (Inr (JNum (int (length shown)))),
                          lit ('' contact(s):'' @ nl @ nl),
                          lit contactList]) (\<lambda>t.
         Inr (text_result t)))))"
    unfolding search_crm_contacts_def shown_def
    by (rule search_head [OF assms])
  have sw: "merge_switch mergeClient fetch ''search_crm_contacts'' (JObj kvs)
      = Inr (text_result (if lines = [] then ''No contacts found for '' @ dq @ query @ dq
                            else ''Found '' @ show_nat (length lines) @ '' contact(s):'' @ nl @ nl
                                 @ join nl lines))"
  proof (cases "shown = []")
    case True
    with len have "lines = []" by simp
    with True show ?thesis
      using assms(1) unfolding sw0 body
      by (simp add: template_def lit_def sub_def)
  next
    case False
    with len have l: "lines \<noteq> []" by auto
    from False have "JNum (int (length shown)) \<noteq> JNum 0" by simp
    with l show ?thesis
      using lines len unfolding sw0 body
      by (simp add: template_def lit_def sub_def sn)
  qed
  show ?thesis using lines sw by (auto simp: merge_call_tool_def shown_def)
qed

theorem search_lists_first_matches_witness:
  "merge_call_tool (new_MergeAPIClient ''key'' ''token'')
     (\<lambda>req. Inr \<lparr>status = 200, response_text = Inr [],
                  response_json = Inr (JObj [(''results'', JArr
                    [JObj [(''id'', JStr ''c1''), (''first_name'', JStr ''Alice''),
                           (''last_name'', JStr ''Smith''),
                           (''email_addresses'', JArr [JObj [(''email_address'', JStr ''alice@example.com'')]])],
                     JObj [(''id'', JStr ''c2''), (''first_name'', JStr ''Bob''),
                           (''last_name'', JNull)]])])\<rparr>)
     ''search_crm_contacts'' (JObj [(''query'', JStr ''alice'')])
   = text_result (''Found 1 contact(s):'' @ nl @ nl @ ''Alice Smith (alice@example.com) - ID: c1'')"
proof -
  let ?alice = "JObj [(''id'', JStr ''c1''), (''first_name'', JStr ''Alice''),
                           (''last_name'', JStr ''Smith''),
                           (''email_addresses'', JArr [JObj [(''email_address'', JStr ''alice@example.com'')]])]"
  let ?bob = "JObj [(''id'', JStr ''c2''), (''first_name'', JStr ''Bob''), (''last_name'', JNull)]"
  let ?response = "\<lparr>status = 200, response_text = Inr [],
                  response_json = Inr (JObj [(''results'', JArr [?alice, ?bob])])\<rparr>"
  have wf: "list_all wf_contact [?alice, ?bob]" by code_simp
  have f: "filter (spec_contact_matches ''alice'') [?alice, ?bob] = [?alice]" by code_simp
  have l: "mapE contact_line [?alice] = Inr [''Alice Smith (alice@example.com) - ID: c1'']"
    by code_simp
  have q: "''alice'' \<noteq> []" by simp
  have k: "map_of [(''query'', JStr ''alice'')] ''query'' = Some (JStr ''alice'')" by simp
  have n: "(map_of [(''query'', JStr ''alice'')] ''limit'' = None \<and> (10::nat) = 10)
           \<or> map_of [(''query'', JStr ''alice'')] ''limit'' = Some (JNum (int 10))" by simp
  have o: "ok ?response" by (simp add: ok_def)
  have j: "response_json ?response = Inr (JObj [(''results'', JArr [?alice, ?bob])])" by simp
  have r: "map_of [(''results'', JArr [?alice, ?bob])] ''results'' = Some (JArr [?alice, ?bob])"
    by simp
  have t: "take 10 (filter (spec_contact_matches ''alice'') [?alice, ?bob]) = [?alice]"
    by code_simp
  have fe: "(\<lambda>req. Inr ?response) req = Inr ?response" for req :: fetch_request
    by simp
  have sh: "show_nat (length [''Alice Smith (alice@example.com) - ID: c1'']) = ''1''"
    by code_simp
  have "\<exists>lines. mapE contact_line (take 10 (filter (spec_contact_matches ''alice'') [?alice, ?bob]))
            = Inr lines
          \<and> merge_call_tool (new_MergeAPIClient ''key'' ''token'') (\<lambda>req. Inr ?response)
               ''search_crm_contacts'' (JObj [(''query'', JStr ''alice'')])
             = text_result (if lines = [] then ''No contacts found for '' @ dq @ ''alice'' @ dq
                            else ''Found '' @ show_nat (length lines) @ '' contact(s):'' @ nl @ nl
                                 @ join nl lines)"
    by (rule search_lists_first_matches [OF q k n fe o j r wf])
  then show ?thesis
  proof (elim exE conjE)
    fix lines
    assume a: "mapE contact_line (take 10 (filter (spec_contact_matches ''alice'') [?alice, ?bob]))
            = Inr lines"
      and b: "merge_call_tool (new_MergeAPIClient ''key'' ''token'') (\<lambda>req. Inr ?response)
               ''search_crm_contacts'' (JObj [(''query'', JStr ''alice'')])
             = text_result (if lines = [] then ''No contacts found for '' @ dq @ ''alice'' @ dq
                            else ''Found '' @ show_nat (length lines) @ '' contact(s):'' @ nl @ nl
                                 @ join nl lines)"
    from a have "lines = [''Alice Smith (alice@example.com) - ID: c1'']"
      unfolding t l by simp
    with b sh show ?thesis by simp
  qed
qed

text \<open>
  The claim as stated, that every matching contact is listed, fails when more contacts
  match than the limit allows: of eleven contacts that all match, a call without a limit
  lists the first ten, and the eleventh is not in the text.
\<close>

theorem search_truncates_counterexample:
  "spec_contact_matches ''al'' (JObj [(''id'', JStr ''c11''), (''first_name'', JStr ''Al'')])
   \<and> merge_call_tool (new_MergeAPIClient ''key'' ''token'')
       (\<lambda>req. Inr \<lparr>status = 200, response_text = Inr [],
                    response_json = Inr (JObj [(''results'', JArr
                      [JObj [(''id'', JStr ''c01''), (''first_name'', JStr ''Al'')],
                       JObj [(''id'', JStr ''c02''), (''first_name'', JStr ''Al'')],
                       JObj [(''id'', JStr ''c03''), (''first_name'', JStr ''Al'')],
                       JObj [(''id'', JStr ''c04''), (''first_name'', JStr ''Al'')],
                       JObj [(''id'', JStr ''c05''), (''first_name'', JStr ''Al'')],
                       JObj [(''id'', JStr ''c06''), (''first_name'', JStr ''Al'')],
                       JObj [(''id'', JStr ''c07''), (''first_name'', JStr ''Al'')],
                       JObj [(''id'', JStr ''c08''), (''first_name'', JStr ''Al'')],
                       JObj [(''id'', JStr ''c09''), (''first_name'', JStr ''Al'')],
                       JObj [(''id'', JStr ''c10''), (''first_name'', JStr ''Al'')],
                       JObj [(''id'', JStr ''c11''), (''first_name'', JStr ''Al'')]])])\<rparr>)
       ''search_crm_contacts'' (JObj [(''query'', JStr ''al'')])
     = text_result (''Found 10 contact(s):'' @ nl @ nl
         @ ''Al (No email) - ID: c01'' @ nl @ ''Al (No email) - ID: c02'' @ nl
         @ ''Al (No email) - ID: c03'' @ nl @ ''Al (No email) - ID: c04'' @ nl
         @ ''Al (No email) - ID: c05'' @ nl @ ''Al (No email) - ID: c06'' @ nl
         @ ''Al (No email) - ID: c07'' @ nl @ ''Al (No email) - ID: c08'' @ nl
         @ ''Al (No email) - ID: c09'' @ nl @ ''Al (No email) - ID: c10'')
   \<and> \<not> str_includes (''Found 10 contact(s):'' @ nl @ nl
         @ ''Al (No email) - ID: c01'' @ nl @ ''Al (No email) - ID: c02'' @ nl
         @ ''Al (No email) - ID: c03'' @ nl @ ''Al (No email) - ID: c04'' @ nl
         @ ''Al (No email) - ID: c05'' @ nl @ ''Al (No email) - ID: c06'' @ nl
         @ ''Al (No email) - ID: c07'' @ nl @ ''Al (No email) - ID: c08'' @ nl
         @ ''Al (No email) - ID: c09'' @ nl @ ''Al (No email) - ID: c10'') ''c11''"
  by code_simp

subsection \<open>Creating an issue from a title\<close>

text \<open>
  Claim C6. \<^verbatim>\<open>create_github_issue\<close> called with a title only sends the issue with an empty
  body and no labels or assignees; when the upstream answers with an issue that has a
  number, a title, an \<^verbatim>\<open>html_url\<close> and a state, the result has \<^verbatim>\<open>isError\<close> unset and its text
  contains \<^verbatim>\<open>#\<close> followed by the number, the title and the URL.
\<close>

theorem create_issue_title_only:
  assumes "octokit (IssuesCreate owner repo (JStr title) (JStr []) None None) = Inr (JObj issue)"
    and "map_of issue ''number'' = Some (JNum number)"
    and "map_of issue ''title'' = Some (JStr issue_title)"
    and "map_of issue ''html_url'' = Some (JStr html_url)"
    and "map_of issue ''state'' = Some (JStr state)"
  shows "\<exists>t. github_call_tool owner repo octokit ''create_github_issue'' (JObj [(''title'', JStr title)])
               = \<lparr>content = [\<lparr>block_type = ''text'', block_text = t\<rparr>], isError = None\<rparr>
           \<and> t = ''Successfully created GitHub issue #'' @ show_int number @ '': '' @ dq @ issue_title
                  @ dq @ nl @ ''URL: '' @ html_url @ nl @ ''State: '' @ state
           \<and> str_includes t (''#'' @ show_int number)
           \<and> str_includes t issue_title
           \<and> str_includes t html_url"
proof -
  let ?t = "''Successfully created GitHub issue #'' @ show_int number @ '': '' @ dq @ issue_title
                  @ dq @ nl @ ''URL: '' @ html_url @ nl @ ''State: '' @ state"
  have sw: "github_switch owner repo octokit ''create_github_issue'' (JObj [(''title'', JStr title)])
          = Inr (text_result ?t)"
    using assms
    by (simp add: github_switch_def github_cases_def create_github_issue_def truthy_with_length_def
        js_or_def template_def lit_def sub_def)
  have 1: "str_includes ?t (''#'' @ show_int number)"
    using str_includes_mid [of "''Successfully created GitHub issue ''" "''#'' @ show_int number"
        "'': '' @ dq @ issue_title @ dq @ nl @ ''URL: '' @ html_url @ nl @ ''State: '' @ state"]
    by simp
  have 2: "str_includes ?t issue_title"
    using str_includes_mid [of "''Successfully created GitHub issue #'' @ show_int number @ '': '' @ dq"
        issue_title "dq @ nl @ ''URL: '' @ html_url @ nl @ ''State: '' @ state"]
    by simp
  have 3: "str_includes ?t html_url"
    using str_includes_mid [of "''Successfully created GitHub issue #'' @ show_int number @ '': '' @ dq
        @ issue_title @ dq @ nl @ ''URL: ''" html_url "nl @ ''State: '' @ state"]
    by simp
  show ?thesis
    using sw 1 2 3 by (simp add: github_call_tool_def text_result_def)
qed

theorem create_issue_title_only_witness:
  "github_call_tool ''octo'' ''demo''
     (\<lambda>call. if call = IssuesCreate ''octo'' ''demo'' (JStr ''Bug X'') (JStr []) None None
              then Inr (JObj [(''number'', JNum 42), (''title'', JStr ''Bug X''),
                              (''html_url'', JStr ''https://x/42''), (''state'', JStr ''open'')])
              else Inl (RequestError 422 ''Validation Failed''))
     ''create_github_issue'' (JObj [(''title'', JStr ''Bug X'')])
   = \<lparr>content = [\<lparr>block_type = ''text'',
                    block_text = ''Successfully created GitHub issue #42: '' @ dq @ ''Bug X'' @ dq @ nl
                                 @ ''URL: https://x/42'' @ nl @ ''State: open''\<rparr>],
      isError = None\<rparr>
   \<and> str_includes (''Successfully created GitHub issue #42: '' @ dq @ ''Bug X'' @ dq @ nl
                                 @ ''URL: https://x/42'' @ nl @ ''State: open'') ''#42''
   \<and> str_includes (''Successfully created GitHub issue #42: '' @ dq @ ''Bug X'' @ dq @ nl
                                 @ ''URL: https://x/42'' @ nl @ ''State: open'') ''Bug X''
   \<and> str_includes (''Successfully created GitHub issue #42: '' @ dq @ ''Bug X'' @ dq @ nl
                                 @ ''URL: https://x/42'' @ nl @ ''State: open'') ''https://x/42''"
  using create_issue_title_only [of
      "\<lambda>call. if call = IssuesCreate ''octo'' ''demo'' (JStr ''Bug X'') (JStr []) None None
              then Inr (JObj [(''number'', JNum 42), (''title'', JStr ''Bug X''),
                              (''html_url'', JStr ''https://x/42''), (''state'', JStr ''open'')])
              else Inl (RequestError 422 ''Validation Failed'')"
      "''octo''" "''demo''" "''Bug X''"
      "[(''number'', JNum 42), (''title'', JStr ''Bug X''),
        (''html_url'', JStr ''https://x/42''), (''state'', JStr ''open'')]"
      42 "''Bug X''" "''https://x/42''" "''open''"]
  by (simp add: show_int_def show_nat.simps digit_char_def)

subsection \<open>No opportunities\<close>

text \<open>
  Claim C7. \<^verbatim>\<open>list_crm_opportunities\<close>, when the upstream answers 2xx with an empty list of
  results, returns a success (\<^verbatim>\<open>isError\<close> unset) whose text says that no opportunities were
  found.
\<close>

theorem no_opportunities_found:
  assumes "map_of kvs ''limit'' = None \<or> (\<exists>n. map_of kvs ''limit'' = Some (JNum n))"
    and "\<And>req. fetch req = Inr response"
    and "ok response"
    and "response_json response = Inr (JObj body')"
    and "map_of body' ''results'' = Some (JArr [])"
  shows "merge_call_tool mergeClient fetch ''list_crm_opportunities'' (JObj kvs)
         = \<lparr>content = [\<lparr>block_type = ''text'', block_text = ''No opportunities found in your CRM''\<rparr>],
            isError = None\<rparr>"
  using assms
  by (auto simp: merge_call_tool_def merge_switch_def merge_cases_def list_crm_opportunities_def
      getOpportunities_def makeRequest_def default_to_def template_def lit_def sub_def orE_def
      text_result_def)

theorem no_opportunities_found_witness:
  "merge_call_tool (new_MergeAPIClient ''key'' ''token'')
     (\<lambda>req. Inr \<lparr>status = 200, response_text = Inr ''{}'',
                  response_json = Inr (JObj [(''next'', JNull), (''results'', JArr [])])\<rparr>)
     ''list_crm_opportunities'' (JObj [])
   = \<lparr>content = [\<lparr>block_type = ''text'', block_text = ''No opportunities found in your CRM''\<rparr>],
      isError = None\<rparr>"
  using no_opportunities_found [of "[]"
      "\<lambda>req. Inr \<lparr>status = 200, response_text = Inr ''{}'',
                  response_json = Inr (JObj [(''next'', JNull), (''results'', JArr [])])\<rparr>"
      "\<lparr>status = 200, response_text = Inr ''{}'',
                  response_json = Inr (JObj [(''next'', JNull), (''results'', JArr [])])\<rparr>"
      "[(''next'', JNull), (''results'', JArr [])]" "new_MergeAPIClient ''key'' ''token''"]
  by (simp add: ok_def)

subsection \<open>Missing credentials\<close>

text \<open>
  Claim C8. If a required credential is absent from the environment (\<^verbatim>\<open>GITHUB_TOKEN\<close> or
  \<^verbatim>\<open>GITHUB_REPO\<close>; \<^verbatim>\<open>MERGE_API_KEY\<close> or \<^verbatim>\<open>MERGE_ACCOUNT_TOKEN\<close>), all the process does is
  exit with status 1: it binds neither the HTTP port nor the stdio transport before.
\<close>

theorem missing_credential_exits:
  "(env ''GITHUB_TOKEN'' = None \<or> env ''GITHUB_REPO'' = None
      \<longrightarrow> github_main env octokit = [ProcessExit 1])
   \<and> (env ''MERGE_API_KEY'' = None \<or> env ''MERGE_ACCOUNT_TOKEN'' = None
      \<longrightarrow> merge_main env fetch = [ProcessExit 1])"
proof (intro conjI impI)
  assume "env ''GITHUB_TOKEN'' = None \<or> env ''GITHUB_REPO'' = None"
  then show "github_main env octokit = [ProcessExit 1]"
    by (auto simp: github_main_def)
next
  assume "env ''MERGE_API_KEY'' = None \<or> env ''MERGE_ACCOUNT_TOKEN'' = None"
  then show "merge_main env fetch = [ProcessExit 1]"
    by (auto simp: merge_main_def split: option.splits)
qed

theorem missing_credential_exits_witness:
  "[''GITHUB_TOKEN'' \<mapsto> ''ghp_x'', ''MERGE_API_KEY'' \<mapsto> ''key''] ''GITHUB_REPO'' = None
   \<and> [''GITHUB_TOKEN'' \<mapsto> ''ghp_x'', ''MERGE_API_KEY'' \<mapsto> ''key''] ''MERGE_ACCOUNT_TOKEN'' = None
   \<and> github_main [''GITHUB_TOKEN'' \<mapsto> ''ghp_x'', ''MERGE_API_KEY'' \<mapsto> ''key'']
        (\<lambda>c. Inr (JObj [(''full_name'', JStr ''o/r'')])) = [ProcessExit 1]
   \<and> merge_main [''GITHUB_TOKEN'' \<mapsto> ''ghp_x'', ''MERGE_API_KEY'' \<mapsto> ''key'']
        (\<lambda>r. Inr \<lparr>status = 200, response_text = Inr ''{}'', response_json = Inr (JObj [])\<rparr>)
      = [ProcessExit 1]"
  using missing_credential_exits [of "[''GITHUB_TOKEN'' \<mapsto> ''ghp_x'', ''MERGE_API_KEY'' \<mapsto> ''key'']"
      "\<lambda>c. Inr (JObj [(''full_name'', JStr ''o/r'')])"
      "\<lambda>r. Inr \<lparr>status = 200, response_text = Inr ''{}'', response_json = Inr (JObj [])\<rparr>"]
  by simp

subsection \<open>Listing the tools twice\<close>



subsection \<open>The limit and the page size\<close>



end
